theory Spec2Isabelle
  imports Complex_Main
begin

section \<open>Errors\<close>

text \<open>
  The exceptions that can cross \<open>add_calendar_page\<close>: the two of Python's \<open>calendar\<close>
  module, the built-in ones of the operations the source performs, and \<open>RenderFailure\<close>
  for whatever a caller-supplied cell renderer raises.
\<close>

datatype error =
    IllegalMonthError int
  | IllegalWeekdayError int
  | ZeroDivisionError
  | IndexError
  | KeyError
  | ValueError
  | RenderFailure

section \<open>The standard library the source calls: \<open>calendar\<close> and \<open>datetime\<close>\<close>

text \<open>
  \<open>add_calendar_page\<close> builds its month grid with \<open>calendar.setfirstweekday\<close> and
  \<open>calendar.monthcalendar\<close> (lines 78-79). Both belong to Python's standard library, not
  to the repository; the definitions below transcribe CPython 3.11's \<open>Lib/calendar.py\<close>
  and the pure-Python \<open>Lib/datetime.py\<close>, function by function. Python's \<open>%\<close> and
  \<open>//\<close> on integers round towards minus infinity, as \<open>mod\<close> and \<open>div\<close> on \<open>int\<close> do.
\<close>

definition isleap :: "int \<Rightarrow> bool" where
  "isleap y = (y mod 4 = 0 \<and> (y mod 100 \<noteq> 0 \<or> y mod 400 = 0))"

definition mdays :: "int list" where
  "mdays = [0, 31, 28, 31, 30, 31, 30, 31, 31, 30, 31, 30, 31]"

definition DAYS_BEFORE_MONTH :: "int list" where
  "DAYS_BEFORE_MONTH = [-1, 0, 31, 59, 90, 120, 151, 181, 212, 243, 273, 304, 334]"

definition days_before_year :: "int \<Rightarrow> int" where
  "days_before_year y = (let z = y - 1 in z * 365 + z div 4 - z div 100 + z div 400)"

definition days_before_month :: "int \<Rightarrow> int \<Rightarrow> int" where
  "days_before_month y m = DAYS_BEFORE_MONTH ! nat m + (if m > 2 \<and> isleap y then 1 else 0)"

definition ymd2ord :: "int \<Rightarrow> int \<Rightarrow> int \<Rightarrow> int" where
  "ymd2ord y m d = days_before_year y + days_before_month y m + d"

text \<open>\<open>datetime.date(y, m, d).weekday()\<close>: 0 is Monday, 6 is Sunday.\<close>

definition date_weekday :: "int \<Rightarrow> int \<Rightarrow> int \<Rightarrow> int" where
  "date_weekday y m d = (ymd2ord y m d + 6) mod 7"

text \<open>\<open>calendar.weekday\<close>: a year outside \<open>MINYEAR..MAXYEAR\<close> is first folded into 2000..2399.\<close>

definition weekday :: "int \<Rightarrow> int \<Rightarrow> int \<Rightarrow> int" where
  "weekday y m d =
     (let y' = (if \<not> (1 \<le> y \<and> y \<le> 9999) then 2000 + y mod 400 else y)
      in date_weekday y' m d)"

text \<open>The number of days of a month, as \<open>monthrange\<close> computes it.\<close>

definition ndays_of :: "int \<Rightarrow> int \<Rightarrow> int" where
  "ndays_of y m = mdays ! nat m + (if m = 2 \<and> isleap y then 1 else 0)"

definition monthrange :: "int \<Rightarrow> int \<Rightarrow> error + (int \<times> int)" where
  "monthrange y m =
     (if \<not> (1 \<le> m \<and> m \<le> 12) then Inl (IllegalMonthError m)
      else Inr (weekday y m 1, ndays_of y m))"

text \<open>
  The module keeps one calendar object \<open>c\<close>; its \<open>firstweekday\<close> is the only state of
  the module, and it is process-wide. It starts as 0 (Monday).
\<close>

record py_calendar =
  firstweekday :: int

definition calendar_initial :: py_calendar where
  "calendar_initial = \<lparr>firstweekday = 0\<rparr>"

definition getfirstweekday :: "py_calendar \<Rightarrow> int" where
  "getfirstweekday cs = firstweekday cs mod 7"

definition setfirstweekday :: "int \<Rightarrow> py_calendar \<Rightarrow> error + py_calendar" where
  "setfirstweekday fwd cs =
     (if \<not> (0 \<le> fwd \<and> fwd \<le> 6) then Inl (IllegalWeekdayError fwd)
      else Inr (cs\<lparr>firstweekday := fwd\<rparr>))"

text \<open>\<open>Calendar.itermonthdays\<close>: leading zeros, the days, trailing zeros.\<close>

definition itermonthdays :: "py_calendar \<Rightarrow> int \<Rightarrow> int \<Rightarrow> error + int list" where
  "itermonthdays cs y m =
     (case monthrange y m of
        Inl e \<Rightarrow> Inl e
      | Inr (day1, ndays) \<Rightarrow>
          (let days_before = (day1 - getfirstweekday cs) mod 7;
               days_after = (getfirstweekday cs - day1 - ndays) mod 7
           in Inr (replicate (nat days_before) 0 @ [1..ndays] @ replicate (nat days_after) 0)))"

text \<open>
  \<open>[days[i:i+7] for i in range(0, len(days), 7)]\<close>: the range has
  \<open>(len(days) + 6) // 7\<close> elements, the \<open>k\<close>-th being \<open>7 * k\<close>.
\<close>

definition weeks_of :: "int list \<Rightarrow> int list list" where
  "weeks_of days = map (\<lambda>k. take 7 (drop (7 * k) days)) [0..<(length days + 6) div 7]"

definition monthcalendar :: "py_calendar \<Rightarrow> int \<Rightarrow> int \<Rightarrow> error + int list list" where
  "monthcalendar cs y m =
     (case itermonthdays cs y m of Inl e \<Rightarrow> Inl e | Inr days \<Rightarrow> Inr (weeks_of days))"

text \<open>The fields of a \<open>datetime\<close> object that the source reads.\<close>

record datetime =
  year :: int
  month :: int

section \<open>The month grid of \<open>add_calendar_page\<close>\<close>

text \<open>
  Lines 78-79 of the source: the first weekday is stored in the calendar module, then the
  grid is computed from the module's state. The result is the module's state afterwards
  and the grid, or the exception raised.
\<close>

definition month_grid ::
  "py_calendar \<Rightarrow> datetime \<Rightarrow> int \<Rightarrow> py_calendar \<times> (error + int list list)" where
  "month_grid cs datetime_obj first_weekday =
     (case setfirstweekday first_weekday cs of
        Inl e \<Rightarrow> (cs, Inl e)
      | Inr cs' \<Rightarrow> (cs', monthcalendar cs' (year datetime_obj) (month datetime_obj)))"

section \<open>Value types of the source\<close>

text \<open>The three named tuples of lines 49-51.\<close>

datatype font = Font (font_name: string) (font_size: real)

datatype geom = Geom (geom_x: real) (geom_y: real) (geom_width: real) (geom_height: real)

datatype size2d = Size (size_width: real) (size_height: real)

section \<open>The drawing surface\<close>

text \<open>
  The canvas is reportlab's \<open>Canvas\<close>, a library outside the repository. The source uses
  eight of its methods; the model keeps what they read and write: the active font, the
  stroke width, the stack of saved graphics states, the operator stream of the page being
  drawn, to which every drawing method appends what it emits, the streams of the pages
  already finished, and the font the canvas was created with, to which every new page
  returns. Python floats are idealised as reals.
\<close>

datatype pdf_op =
    SaveState
  | RestoreState
  | SetFont string real
  | SetLineWidth real
  | RectOp real real real real
  | DrawString real real string

record canvas =
  fontname :: string
  fontsize :: real
  lineWidth :: real
  state_stack :: "(string \<times> real \<times> real) list"
  code :: "pdf_op list"
  pages :: "pdf_op list list"
  initialFontName :: string
  initialFontSize :: real

text \<open>
  A fresh canvas, as \<open>Canvas(outfile, size)\<close> makes it: Helvetica 12, stroke width 1, no
  page yet.
\<close>

definition Canvas0 :: canvas where
  "Canvas0 = \<lparr>fontname = ''Helvetica'', fontsize = 12, lineWidth = 1, state_stack = [],
               code = [], pages = [], initialFontName = ''Helvetica'',
               initialFontSize = 12\<rparr>"

text \<open>
  A call either returns or raises; in both cases the canvas has been mutated up to that
  point, so both outcomes carry it.
\<close>

datatype outcome =
    is_Returned: Returned (canvas_of: canvas)
  | Raised (error_of: error) (canvas_of: canvas)

definition saveState :: "canvas \<Rightarrow> canvas" where
  "saveState c =
     c\<lparr>state_stack := (fontname c, fontsize c, lineWidth c) # state_stack c,
       code := code c @ [SaveState]\<rparr>"

text \<open>
  \<open>restoreState\<close> emits its operator and then pops the stack; popping an empty stack is
  an \<open>IndexError\<close>.
\<close>

definition restoreState :: "canvas \<Rightarrow> outcome" where
  "restoreState c =
     (case state_stack c of
        [] \<Rightarrow> Raised IndexError (c\<lparr>code := code c @ [RestoreState]\<rparr>)
      | (fn, fs, lw) # st \<Rightarrow>
          Returned (c\<lparr>fontname := fn, fontsize := fs, lineWidth := lw, state_stack := st,
                      code := code c @ [RestoreState]\<rparr>))"

definition setFont :: "canvas \<Rightarrow> string \<Rightarrow> real \<Rightarrow> canvas" where
  "setFont c psfontname sz =
     c\<lparr>fontname := psfontname, fontsize := sz, code := code c @ [SetFont psfontname sz]\<rparr>"

definition setLineWidth :: "canvas \<Rightarrow> real \<Rightarrow> canvas" where
  "setLineWidth c w = c\<lparr>lineWidth := w, code := code c @ [SetLineWidth w]\<rparr>"

definition canvas_rect :: "canvas \<Rightarrow> real \<Rightarrow> real \<Rightarrow> real \<Rightarrow> real \<Rightarrow> canvas" where
  "canvas_rect c x y w h = c\<lparr>code := code c @ [RectOp x y w h]\<rparr>"

definition drawString :: "canvas \<Rightarrow> real \<Rightarrow> real \<Rightarrow> string \<Rightarrow> canvas" where
  "drawString c x y text = c\<lparr>code := code c @ [DrawString x y text]\<rparr>"

text \<open>
  \<open>showPage\<close> hands the stream of the page to the document and starts the next page: the
  stream is empty again, the graphics state is the initial one and the stack of saved
  states is empty.
\<close>

definition showPage :: "canvas \<Rightarrow> canvas" where
  "showPage c =
     c\<lparr>fontname := initialFontName c, fontsize := initialFontSize c, lineWidth := 1,
       state_stack := [], code := [], pages := pages c @ [code c]\<rparr>"

text \<open>
  \<open>canvas.stringWidth(text, fontName, fontSize)\<close> reads the library's font metrics; the
  renderer takes it as a parameter of this type.
\<close>

type_synonym string_width = "string \<Rightarrow> string \<Rightarrow> real \<Rightarrow> real"

text \<open>A fixed-pitch metric, for concrete runs.\<close>

definition mono_width :: string_width where
  "mono_width text fname fsize = real (length text) * fsize * 0.6"

section \<open>\<open>save_state\<close> (lines 54-59)\<close>

text \<open>
  The generator of the context manager has no \<open>try\<close>/\<open>finally\<close> around its \<open>yield\<close>:
  an exception of the body is re-raised at the \<open>yield\<close> and leaves the generator, so
  \<open>canvas.restoreState()\<close> runs only when the body returns.
\<close>

definition save_state :: "(canvas \<Rightarrow> outcome) \<Rightarrow> canvas \<Rightarrow> outcome" where
  "save_state body c =
     (case body (saveState c) of
        Raised e c' \<Rightarrow> Raised e c'
      | Returned c' \<Rightarrow> restoreState c')"

section \<open>Integers as text\<close>

text \<open>\<open>str(n)\<close> for an integer: decimal digits, with a minus sign when negative.\<close>

definition digit_char :: "nat \<Rightarrow> char" where
  "digit_char d = ''0123456789'' ! d"

fun str_nat :: "nat \<Rightarrow> string" where
  "str_nat n = (if n < 10 then [digit_char n] else str_nat (n div 10) @ [digit_char (n mod 10)])"

declare str_nat.simps [simp del]

definition str :: "int \<Rightarrow> string" where
  "str i = (if i < 0 then CHR ''-'' # str_nat (nat (- i)) else str_nat (nat i))"

text \<open>
  \<open>int(s)\<close> on the strings that \<open>str\<close> produces: an optional minus sign and decimal
  digits. Anything else is a \<open>ValueError\<close> here (Python also accepts blanks around the
  number, a plus sign and underscores between digits; \<open>str\<close> produces none of them).
\<close>

definition digit_val :: "char \<Rightarrow> nat option" where
  "digit_val ch =
     (let k = (of_char ch :: nat) in if 48 \<le> k \<and> k \<le> 57 then Some (k - 48) else None)"

fun parse_digits :: "nat \<Rightarrow> string \<Rightarrow> nat option" where
  "parse_digits acc [] = Some acc"
| "parse_digits acc (ch # cs) =
     (case digit_val ch of None \<Rightarrow> None | Some d \<Rightarrow> parse_digits (10 * acc + d) cs)"

definition py_int :: "string \<Rightarrow> error + int" where
  "py_int s =
     (case s of
        [] \<Rightarrow> Inl ValueError
      | ch # cs \<Rightarrow>
          if ch = CHR ''-'' then
            (case cs of
               [] \<Rightarrow> Inl ValueError
             | _ # _ \<Rightarrow>
                 (case parse_digits 0 cs of None \<Rightarrow> Inl ValueError | Some n \<Rightarrow> Inr (- int n)))
          else
            (case parse_digits 0 s of None \<Rightarrow> Inl ValueError | Some n \<Rightarrow> Inr (int n)))"

section \<open>The ordinal table (lines 42-46)\<close>

text \<open>The keys are integers and \<open>None\<close>.\<close>

definition ORDINALS :: "int option \<rightharpoonup> string" where
  "ORDINALS = map_of
     [(Some 1, ''st''), (Some 2, ''nd''), (Some 3, ''rd''),
      (Some 21, ''st''), (Some 22, ''nd''), (Some 23, ''rd''),
      (Some 31, ''st''),
      (None, ''th'')]"

text \<open>
  Line 140, \<open>ORDINALS.get(int(day), ORDINALS[None])\<close>, where \<open>day\<close> is already the
  string \<open>str(day)\<close>: \<open>int(day)\<close> is evaluated first, then the subscript \<open>ORDINALS[None]\<close>
  (a \<open>KeyError\<close> if the key were missing), then the lookup with that default.
\<close>

definition ordinal_lookup :: "string \<Rightarrow> error + string" where
  "ordinal_lookup day_s =
     (case py_int day_s of
        Inl e \<Rightarrow> Inl e
      | Inr k \<Rightarrow>
          (case ORDINALS None of
             None \<Rightarrow> Inl KeyError
           | Some dflt \<Rightarrow> Inr (case ORDINALS (Some k) of None \<Rightarrow> dflt | Some s \<Rightarrow> s)))"

section \<open>\<open>draw_cell\<close> (lines 116-158)\<close>

definition cell_margin :: "font \<Rightarrow> size2d" where
  "cell_margin fnt = Size (font_size fnt * 0.5) (font_size fnt * 1.3)"

definition small_font :: "real \<Rightarrow> font" where
  "small_font scale_factor = Font ''Helvetica'' (scale_factor * 0.018)"

text \<open>\<open>range(1,4)\<close> is \<open>[1, 2, 3]\<close>; \<open>'DUMMY %s' % rownum\<close> appends \<open>str(rownum)\<close>.\<close>

definition draw_cell ::
  "string_width \<Rightarrow> canvas \<Rightarrow> int \<Rightarrow> geom \<Rightarrow> font \<Rightarrow> real \<Rightarrow> outcome" where
  "draw_cell stringWidth c day rect fnt scale_factor =
     (if day = 0 then Returned c
      else
        let margin = cell_margin fnt;
            c1 = canvas_rect c (geom_x rect) (geom_y rect - geom_height rect)
                   (geom_width rect) (geom_height rect);
            day_s = str day
        in (case ordinal_lookup day_s of
              Inl e \<Rightarrow> Raised e c1
            | Inr ordinal_str \<Rightarrow>
                let text_x = geom_x rect + size_width margin;
                    text_y = geom_y rect - size_height margin;
                    c2 = drawString c1 text_x text_y day_s;
                    number_width = stringWidth day_s (font_name fnt) (font_size fnt);
                    c3 = drawString c2 (text_x + number_width)
                           (text_y + size_height margin * 0.1) ordinal_str;
                    smallfont = small_font scale_factor;
                    c4 = setFont c3 (font_name smallfont) (font_size smallfont)
                in Returned
                     (foldl (\<lambda>cv rownum.
                         drawString cv text_x (text_y - font_size smallfont * of_int rownum)
                           (''DUMMY '' @ str rownum))
                       c4 [1, 2, 3])))"

section \<open>\<open>add_calendar_page\<close> (lines 62-113)\<close>

type_synonym cell_cb = "canvas \<Rightarrow> int \<Rightarrow> geom \<Rightarrow> font \<Rightarrow> real \<Rightarrow> outcome"

text \<open>A \<open>for\<close> loop whose body may raise: the first exception ends the loop.\<close>

fun for_each :: "'a list \<Rightarrow> ('a \<Rightarrow> canvas \<Rightarrow> outcome) \<Rightarrow> canvas \<Rightarrow> outcome" where
  "for_each [] body c = Returned c"
| "for_each (a # as) body c =
     (case body a c of
        Raised e c' \<Rightarrow> Raised e c'
      | Returned c' \<Rightarrow> for_each as body c')"

definition enumerate_list :: "'a list \<Rightarrow> (nat \<times> 'a) list" where
  "enumerate_list xs = zip [0..<length xs] xs"

text \<open>Lines 83-85.\<close>

definition scale_factor_of :: "geom \<Rightarrow> real" where
  "scale_factor_of rect = min (geom_width rect) (geom_height rect)"

definition line_width_of :: "real \<Rightarrow> real" where
  "line_width_of scale_factor = scale_factor * 0.0025"

definition page_font :: "real \<Rightarrow> font" where
  "page_font scale_factor = Font ''Helvetica'' (scale_factor * 0.028)"

text \<open>Lines 89-93.\<close>

definition inset_rect :: "geom \<Rightarrow> real \<Rightarrow> geom" where
  "inset_rect rect line_width =
     Geom (geom_x rect + line_width) (geom_y rect + line_width)
          (geom_width rect - line_width * 2) (geom_height rect - line_width * 2)"

definition cellsize_of :: "geom \<Rightarrow> nat \<Rightarrow> size2d" where
  "cellsize_of rect rows = Size (geom_width rect / 7) (geom_height rect / real rows)"

text \<open>Lines 105-108: the rectangle handed to the cell renderer.\<close>

definition cell_rect :: "geom \<Rightarrow> size2d \<Rightarrow> nat \<Rightarrow> nat \<Rightarrow> nat \<Rightarrow> geom" where
  "cell_rect rect cellsize rows row col =
     Geom (geom_x rect + size_width cellsize * real col)
          (geom_y rect + (real rows - real row) * size_height cellsize)
          (size_width cellsize) (size_height cellsize)"

text \<open>Lines 99-109: one cell, under the guard.\<close>

definition render_cell ::
  "cell_cb \<Rightarrow> font \<Rightarrow> real \<Rightarrow> real \<Rightarrow> geom \<Rightarrow> size2d \<Rightarrow> nat \<Rightarrow> nat \<Rightarrow> nat \<Rightarrow> int
     \<Rightarrow> canvas \<Rightarrow> outcome" where
  "render_cell cb fnt line_width scale_factor rect cellsize rows row col day =
     save_state (\<lambda>c.
       cb (setLineWidth (setFont c (font_name fnt) (font_size fnt)) line_width)
          day (cell_rect rect cellsize rows row col) fnt scale_factor)"

text \<open>
  Lines 80-113, once the grid \<open>cal\<close> is there. Dividing by \<open>rows\<close> on line 93 raises
  \<open>ZeroDivisionError\<close> when the grid is empty.
\<close>

definition render_page :: "cell_cb \<Rightarrow> canvas \<Rightarrow> geom \<Rightarrow> int list list \<Rightarrow> outcome" where
  "render_page cb c rect0 cal =
     (let scale_factor = scale_factor_of rect0;
          line_width = line_width_of scale_factor;
          fnt = page_font scale_factor;
          rows = length cal;
          rect = inset_rect rect0 line_width
      in if rows = 0 then Raised ZeroDivisionError c
         else
           (let cellsize = cellsize_of rect rows
            in (case for_each (enumerate_list cal) (\<lambda>(row, week).
                        for_each (enumerate_list week) (\<lambda>(col, day).
                          render_cell cb fnt line_width scale_factor rect cellsize
                            rows row col day)) c of
                  Raised e c' \<Rightarrow> Raised e c'
                | Returned c' \<Rightarrow> Returned (showPage c'))))"

text \<open>
  The whole operation. It reads and writes the calendar module's state, so that state is
  an argument and a result.
\<close>

definition add_calendar_page ::
  "py_calendar \<Rightarrow> canvas \<Rightarrow> geom \<Rightarrow> datetime \<Rightarrow> cell_cb \<Rightarrow> int \<Rightarrow> py_calendar \<times> outcome" where
  "add_calendar_page cs c rect0 datetime_obj cb first_weekday =
     (case month_grid cs datetime_obj first_weekday of
        (cs', Inl e) \<Rightarrow> (cs', Raised e c)
      | (cs', Inr cal) \<Rightarrow> (cs', render_page cb c rect0 cal))"

section \<open>Notions used to state the properties\<close>

text \<open>
  A cell renderer that raises after changing the font: the input on which the guard's
  error path is run.
\<close>

definition failing_renderer :: cell_cb where
  "failing_renderer c day rect fnt scale_factor = Raised RenderFailure (setFont c ''Courier'' 99)"

text \<open>
  A cell renderer that records what it is given: it strokes the rectangle it received, as
  it received it, and writes the day number at its origin.
\<close>

definition stroke_renderer :: cell_cb where
  "stroke_renderer c day rect fnt scale_factor =
     Returned (drawString
       (canvas_rect c (geom_x rect) (geom_y rect) (geom_width rect) (geom_height rect))
       (geom_x rect) (geom_y rect) (str day))"

text \<open>
  A cell renderer is well behaved when it always returns and leaves the stack of saved
  states as it found it (it may draw and change the font or the stroke width).
\<close>

definition returns_normally :: "cell_cb \<Rightarrow> bool" where
  "returns_normally cb =
     (\<forall>c day rect fnt sf. is_Returned (cb c day rect fnt sf)
        \<and> state_stack (canvas_of (cb c day rect fnt sf)) = state_stack c)"

text \<open>
  The closed rectangle with lower left corner \<open>(x, y)\<close>, width \<open>w\<close> and height \<open>h\<close>, and
  its interior. \<open>draw_cell\<close> strokes the border of a cell \<open>rect\<close> as
  \<open>canvas.rect(rect.x, rect.y - rect.height, rect.width, rect.height)\<close> (line 137): a
  cell covers the rectangle that hangs below its origin.
\<close>

definition in_rect :: "real \<Rightarrow> real \<Rightarrow> real \<Rightarrow> real \<Rightarrow> real \<times> real \<Rightarrow> bool" where
  "in_rect x y w h p = (x \<le> fst p \<and> fst p \<le> x + w \<and> y \<le> snd p \<and> snd p \<le> y + h)"

definition inside_rect :: "real \<Rightarrow> real \<Rightarrow> real \<Rightarrow> real \<Rightarrow> real \<times> real \<Rightarrow> bool" where
  "inside_rect x y w h p = (x < fst p \<and> fst p < x + w \<and> y < snd p \<and> snd p < y + h)"

definition in_cell :: "geom \<Rightarrow> real \<times> real \<Rightarrow> bool" where
  "in_cell g p = in_rect (geom_x g) (geom_y g - geom_height g) (geom_width g) (geom_height g) p"

definition inside_cell :: "geom \<Rightarrow> real \<times> real \<Rightarrow> bool" where
  "inside_cell g p =
     inside_rect (geom_x g) (geom_y g - geom_height g) (geom_width g) (geom_height g) p"

section \<open>Properties of the month grid\<close>

lemma concat_weeks_take:
  "concat (map (\<lambda>k. take 7 (drop (7 * k) xs)) [0..<n]) = take (7 * n) xs"
proof (induction n)
  case 0
  show ?case by simp
next
  case (Suc n)
  have "take (7 * Suc n) xs = take (7 * n + 7) xs"
    by (simp add: add.commute)
  also have "\<dots> = take (7 * n) xs @ take 7 (drop (7 * n) xs)"
    by (rule take_add)
  finally show ?case
    using Suc.IH by simp
qed

lemma concat_weeks_of: "concat (weeks_of days) = days"
proof -
  have "length days \<le> 7 * ((length days + 6) div 7)"
    by arith
  then show ?thesis
    by (simp add: weeks_of_def concat_weeks_take)
qed

lemma length_weeks_of: "length (weeks_of days) = (length days + 6) div 7"
  by (simp add: weeks_of_def)

lemma weeks_of_full:
  assumes "7 dvd length days" and "week \<in> set (weeks_of days)"
  shows "length week = 7"
proof -
  from assms(2) obtain k where k: "k < (length days + 6) div 7"
    and week: "week = take 7 (drop (7 * k) days)"
    by (auto simp: weeks_of_def)
  from assms(1) obtain q where q: "length days = 7 * q"
    by (auto simp: dvd_def)
  from k q have "k < q" by arith
  then have "7 * k + 7 \<le> length days"
    using q by arith
  then show ?thesis
    by (simp add: week)
qed

lemma month_cases:
  fixes m :: int
  assumes "1 \<le> m" and "m \<le> 12"
  shows "m = 1 \<or> m = 2 \<or> m = 3 \<or> m = 4 \<or> m = 5 \<or> m = 6
           \<or> m = 7 \<or> m = 8 \<or> m = 9 \<or> m = 10 \<or> m = 11 \<or> m = 12"
  using assms by arith

lemma mdays_range:
  assumes "1 \<le> m" and "m \<le> 12"
  shows "28 \<le> ndays_of y m \<and> ndays_of y m \<le> 31"
  using month_cases [OF assms]
  by (auto simp: ndays_of_def mdays_def)

lemma padding_mod:
  fixes day1 f n :: int
  shows "((day1 - f) mod 7 + n + (f - day1 - n) mod 7) mod 7 = 0"
  by (metis (no_types, opaque_lifting) add.commute add_diff_cancel_left' diff_diff_eq2
      mod_add_eq mod_add_left_eq diff_add_cancel mod_0 diff_self)

lemma days_length_dvd:
  fixes day1 f n :: int
  assumes "0 \<le> n"
  shows "7 dvd length (replicate (nat ((day1 - f) mod 7)) (0::int) @ [1..n]
           @ replicate (nat ((f - day1 - n) mod 7)) 0)"
proof -
  let ?b = "(day1 - f) mod 7" and ?a = "(f - day1 - n) mod 7"
  have b: "0 \<le> ?b" and a: "0 \<le> ?a"
    by simp_all
  have len: "length (replicate (nat ?b) (0::int) @ [1..n] @ replicate (nat ?a) 0)
               = nat (?b + n + ?a)"
    using assms a b by (simp add: nat_add_distrib)
  have "(7::int) dvd ?b + n + ?a"
    using padding_mod [of day1 f n] by (simp only: dvd_eq_mod_eq_0)
  then obtain q where q: "?b + n + ?a = 7 * q"
    by (auto simp: dvd_def)
  have "0 \<le> ?b + n + ?a"
    using assms a b by linarith
  with q have "0 \<le> q"
    by linarith
  then have "nat (?b + n + ?a) = 7 * nat q"
    by (simp only: q nat_mult_distrib) simp
  then show ?thesis
    by (simp only: len) simp
qed

lemma days_nonzero:
  "filter (\<lambda>d. d \<noteq> 0) (replicate b (0::int) @ [1..n] @ replicate a 0) = [1..n]"
  by (simp add: filter_empty_conv)

lemma month_grid_eq:
  assumes "1 \<le> month dt" and "month dt \<le> 12" and "0 \<le> fwd" and "fwd \<le> 6"
  shows "month_grid cs dt fwd =
     (cs\<lparr>firstweekday := fwd\<rparr>,
      Inr (weeks_of (replicate (nat ((weekday (year dt) (month dt) 1 - fwd) mod 7)) 0
            @ [1..ndays_of (year dt) (month dt)]
            @ replicate (nat ((fwd - weekday (year dt) (month dt) 1
                 - ndays_of (year dt) (month dt)) mod 7)) 0)))"
  using assms
  by (simp add: month_grid_def setfirstweekday_def monthcalendar_def itermonthdays_def
      monthrange_def getfirstweekday_def)

lemma days_length_bounds:
  fixes day1 f n :: int
  assumes "28 \<le> n" and "n \<le> 31"
  shows "28 \<le> length (replicate (nat ((day1 - f) mod 7)) (0::int) @ [1..n]
           @ replicate (nat ((f - day1 - n) mod 7)) 0)
       \<and> length (replicate (nat ((day1 - f) mod 7)) (0::int) @ [1..n]
           @ replicate (nat ((f - day1 - n) mod 7)) 0) \<le> 43"
proof -
  let ?b = "(day1 - f) mod 7" and ?a = "(f - day1 - n) mod 7"
  have b: "0 \<le> ?b" "?b < 7" and a: "0 \<le> ?a" "?a < 7"
    by simp_all
  have len: "length (replicate (nat ?b) (0::int) @ [1..n] @ replicate (nat ?a) 0)
               = nat (?b + n + ?a)"
    using assms a b by (simp add: nat_add_distrib)
  have "28 \<le> ?b + n + ?a" and "?b + n + ?a \<le> 43"
    using assms a b by linarith+
  then have "28 \<le> nat (?b + n + ?a) \<and> nat (?b + n + ?a) \<le> 43"
    by linarith
  then show ?thesis
    by (simp only: len)
qed

lemma weeks_of_rows:
  assumes "7 dvd length days" and "28 \<le> length days" and "length days \<le> 43"
  shows "4 \<le> length (weeks_of days) \<and> length (weeks_of days) \<le> 6"
proof -
  from assms(1) obtain q where q: "length days = 7 * q"
    by (auto simp: dvd_def)
  with assms(2,3) have "4 \<le> q" and "q \<le> 6"
    by arith+
  moreover have "length (weeks_of days) = q"
    by (simp add: length_weeks_of q)
  ultimately show ?thesis
    by simp
qed

lemma month_grid_shape:
  assumes "1 \<le> month dt" and "month dt \<le> 12" and "0 \<le> fwd" and "fwd \<le> 6"
  shows "\<exists>cal. month_grid cs dt fwd = (cs\<lparr>firstweekday := fwd\<rparr>, Inr cal)
           \<and> 4 \<le> length cal \<and> length cal \<le> 6
           \<and> (\<forall>week \<in> set cal. length week = 7)
           \<and> filter (\<lambda>d. d \<noteq> 0) (concat cal) = [1..ndays_of (year dt) (month dt)]"
proof -
  let ?n = "ndays_of (year dt) (month dt)"
  let ?d1 = "weekday (year dt) (month dt) 1"
  let ?days = "replicate (nat ((?d1 - fwd) mod 7)) 0 @ [1..?n]
                 @ replicate (nat ((fwd - ?d1 - ?n) mod 7)) 0"
  have grid: "month_grid cs dt fwd = (cs\<lparr>firstweekday := fwd\<rparr>, Inr (weeks_of ?days))"
    using assms by (rule month_grid_eq)
  have n: "28 \<le> ?n \<and> ?n \<le> 31"
    using assms(1,2) by (rule mdays_range)
  then have "0 \<le> ?n"
    by simp
  then have dvd: "7 dvd length ?days"
    by (rule days_length_dvd)
  then have rows: "\<forall>week \<in> set (weeks_of ?days). length week = 7"
    using weeks_of_full by blast
  have "28 \<le> length ?days \<and> length ?days \<le> 43"
    using n by (intro days_length_bounds) simp_all
  with dvd have count: "4 \<le> length (weeks_of ?days) \<and> length (weeks_of ?days) \<le> 6"
    by (intro weeks_of_rows) simp_all
  have cells: "filter (\<lambda>d. d \<noteq> 0) (concat (weeks_of ?days)) = [1..?n]"
    by (simp only: concat_weeks_of days_nonzero)
  from grid rows count cells show ?thesis
    by blast
qed

lemma ndays_of_table:
  assumes "1 \<le> m" and "m \<le> 12"
  shows "ndays_of y m =
     (if m = 2 then (if y mod 4 = 0 \<and> (y mod 100 \<noteq> 0 \<or> y mod 400 = 0) then 29 else 28)
      else if m = 4 \<or> m = 6 \<or> m = 9 \<or> m = 11 then 30 else 31)"
  using month_cases [OF assms]
  by (auto simp: ndays_of_def mdays_def isleap_def)

text \<open>
  C1. For every valid month (1..12), every year and every first weekday (0..6), the grid
  that \<open>add_calendar_page\<close> builds exists, each of its rows has exactly 7 columns, and its
  cells read in row-major order, zeros discarded, are exactly \<open>1, 2, ..., N\<close> in ascending
  order, where \<open>N\<close> is the number of days of the month: 31, but 30 for April, June,
  September and November, and for February 29 in a leap year (a year divisible by 4 and
  not by 100, or divisible by 400) and 28 otherwise.
\<close>

theorem month_grid_days:
  assumes "1 \<le> month dt" and "month dt \<le> 12" and "0 \<le> fwd" and "fwd \<le> 6"
  shows "\<exists>cal. month_grid cs dt fwd = (cs\<lparr>firstweekday := fwd\<rparr>, Inr cal)
           \<and> (\<forall>week \<in> set cal. length week = 7)
           \<and> filter (\<lambda>d. d \<noteq> 0) (concat cal) =
               [1..(if month dt = 2
                    then (if year dt mod 4 = 0 \<and> (year dt mod 100 \<noteq> 0 \<or> year dt mod 400 = 0)
                          then 29 else 28)
                    else if month dt = 4 \<or> month dt = 6 \<or> month dt = 9 \<or> month dt = 11
                    then 30 else 31)]"
  using month_grid_shape [OF assms, of cs] ndays_of_table [OF assms(1,2), of "year dt"]
  by auto

theorem month_grid_days_witness:
  "(1::int) \<le> 2 \<and> (2::int) \<le> 12 \<and> (0::int) \<le> 6 \<and> (6::int) \<le> 6
   \<and> (\<exists>cal. month_grid calendar_initial \<lparr>year = 2024, month = 2\<rparr> 6
                 = (\<lparr>firstweekday = 6\<rparr>, Inr cal)
           \<and> (\<forall>week \<in> set cal. length week = 7)
           \<and> filter (\<lambda>d. d \<noteq> 0) (concat cal) = [1..29])"
  using month_grid_days [of "\<lparr>year = 2024, month = 2\<rparr>" 6 calendar_initial]
  by (simp add: calendar_initial_def)

lemma april_2024_monday:
  "month_grid calendar_initial \<lparr>year = 2024, month = 4\<rparr> 0 =
     (\<lparr>firstweekday = 0\<rparr>,
      Inr [[1, 2, 3, 4, 5, 6, 7], [8, 9, 10, 11, 12, 13, 14], [15, 16, 17, 18, 19, 20, 21],
        [22, 23, 24, 25, 26, 27, 28], [29, 30, 0, 0, 0, 0, 0]])"
  by code_simp

text \<open>
  C7, as stated. April 2024 with Monday as first weekday: there is no grid of 5 rows whose
  first row is \<open>[0,1,2,3,4,5,6]\<close> (1 April 2024 is a Monday, so the grid starts with day 1
  in column 0).
\<close>

theorem april_2024_first_row_counterexample:
  "\<not> (\<exists>cs' cal. month_grid calendar_initial \<lparr>year = 2024, month = 4\<rparr> 0 = (cs', Inr cal)
        \<and> length cal = 5 \<and> cal ! 0 = [0, 1, 2, 3, 4, 5, 6])"
  by (simp add: april_2024_monday)

text \<open>
  C7, amended. April 2024 with Monday as first weekday: the grid has exactly 5 rows, its
  first row is \<open>[1,2,3,4,5,6,7]\<close>, and day 30 stands in row 4 at column 1 (Tuesday),
  followed by zeros to the end of the row.
\<close>

theorem april_2024_grid:
  "month_grid calendar_initial \<lparr>year = 2024, month = 4\<rparr> 0 =
     (\<lparr>firstweekday = 0\<rparr>,
      Inr [[1, 2, 3, 4, 5, 6, 7],
           [8, 9, 10, 11, 12, 13, 14],
           [15, 16, 17, 18, 19, 20, 21],
           [22, 23, 24, 25, 26, 27, 28],
           [29, 30, 0, 0, 0, 0, 0]])"
  by code_simp

section \<open>Properties of the default cell renderer\<close>

lemma parse_digits_append:
  "parse_digits acc (xs @ ys) = (case parse_digits acc xs of None \<Rightarrow> None | Some a \<Rightarrow> parse_digits a ys)"
  by (induction xs arbitrary: acc) (auto split: option.splits)

lemma digit_val_digit_char: "d < 10 \<Longrightarrow> digit_val (digit_char d) = Some d"
proof -
  assume "d < 10"
  then have "d = 0 \<or> d = 1 \<or> d = 2 \<or> d = 3 \<or> d = 4 \<or> d = 5 \<or> d = 6 \<or> d = 7 \<or> d = 8 \<or> d = 9"
    by arith
  then show ?thesis
    by (auto simp: digit_val_def digit_char_def)
qed

lemma digit_char_not_minus: "d < 10 \<Longrightarrow> digit_char d \<noteq> CHR ''-''"
proof -
  assume "d < 10"
  then have "d = 0 \<or> d = 1 \<or> d = 2 \<or> d = 3 \<or> d = 4 \<or> d = 5 \<or> d = 6 \<or> d = 7 \<or> d = 8 \<or> d = 9"
    by arith
  then show ?thesis
    by (auto simp: digit_char_def)
qed

lemma parse_str_nat: "parse_digits 0 (str_nat n) = Some n"
proof (induction n rule: str_nat.induct)
  case (1 n)
  show ?case
  proof (cases "n < 10")
    case True
    then show ?thesis
      by (subst str_nat.simps) (simp add: digit_val_digit_char)
  next
    case False
    then have "parse_digits 0 (str_nat (n div 10)) = Some (n div 10)"
      using "1.IH" by simp
    with False show ?thesis
      by (subst str_nat.simps) (simp add: parse_digits_append digit_val_digit_char)
  qed
qed

lemma str_nat_Cons: "\<exists>ch cs. str_nat n = ch # cs \<and> ch \<noteq> CHR ''-''"
proof (induction n rule: str_nat.induct)
  case (1 n)
  show ?case
  proof (cases "n < 10")
    case True
    then show ?thesis
      by (subst str_nat.simps) (simp add: digit_char_not_minus)
  next
    case False
    then obtain ch cs where "str_nat (n div 10) = ch # cs" and "ch \<noteq> CHR ''-''"
      using "1.IH" by auto
    with False show ?thesis
      by (subst str_nat.simps) simp
  qed
qed

lemma py_int_str: "py_int (str i) = Inr i"
proof (cases "i < 0")
  case True
  obtain ch cs where cs: "str_nat (nat (- i)) = ch # cs"
    using str_nat_Cons by blast
  have "parse_digits 0 (ch # cs) = Some (nat (- i))"
    using parse_str_nat [of "nat (- i)"] by (simp only: cs)
  with True show ?thesis
    by (simp add: py_int_def str_def cs)
next
  case False
  obtain ch cs where cs: "str_nat (nat i) = ch # cs" and ch: "ch \<noteq> CHR ''-''"
    using str_nat_Cons by blast
  have "parse_digits 0 (ch # cs) = Some (nat i)"
    using parse_str_nat [of "nat i"] by (simp only: cs)
  with False ch show ?thesis
    by (simp add: py_int_def str_def cs)
qed

text \<open>
  C5. The ordinal suffix looked up when a day number is rendered is "st" for 1, 21 and 31,
  "nd" for 2 and 22, "rd" for 3 and 23, and the default "th" for every other day (4 and 11
  among them).
\<close>

theorem ordinal_lookup_table:
  "ordinal_lookup (str day) =
     Inr (if day = 1 \<or> day = 21 \<or> day = 31 then ''st''
          else if day = 2 \<or> day = 22 then ''nd''
          else if day = 3 \<or> day = 23 then ''rd''
          else ''th'')"
  by (simp add: ordinal_lookup_def py_int_str ORDINALS_def)

text \<open>
  C6. For every cell rectangle, font and scale factor, \<open>draw_cell\<close> with day 0 returns
  with the canvas exactly as it was: no operator is emitted, and the font, the stroke
  width and the state stack are unchanged.
\<close>

theorem draw_cell_padding: "draw_cell sw c 0 rect fnt sf = Returned c"
  by (simp add: draw_cell_def)

lemma ordinal_lookup_str:
  "\<exists>suffix. ordinal_lookup (str day) = Inr suffix"
  by (simp add: ordinal_lookup_def py_int_str ORDINALS_def)

lemma str_1: "str 1 = ''1''" and str_2: "str 2 = ''2''" and str_3: "str 3 = ''3''"
  by (simp_all add: str_def str_nat.simps digit_char_def)

text \<open>
  C10. For every non-zero day, \<open>draw_cell\<close> returns, and what it has appended to the
  page ends with: the switch to Helvetica at \<open>scale_factor * 0.018\<close>, then "DUMMY 1",
  "DUMMY 2" and "DUMMY 3" at the day number's x position, line \<open>k\<close> lying \<open>k\<close> small font
  sizes below the day number's baseline. The canvas it returns has that small font as its
  active font.
\<close>

theorem draw_cell_dummy_lines:
  assumes "day \<noteq> 0"
  shows "\<exists>suffix.
     ordinal_lookup (str day) = Inr suffix \<and>
     draw_cell sw c day rect fnt sf =
       Returned (c\<lparr>fontname := ''Helvetica'', fontsize := sf * 0.018,
         code := code c @
           [RectOp (geom_x rect) (geom_y rect - geom_height rect)
              (geom_width rect) (geom_height rect),
            DrawString (geom_x rect + font_size fnt * 0.5)
              (geom_y rect - font_size fnt * 1.3) (str day),
            DrawString
              (geom_x rect + font_size fnt * 0.5 + sw (str day) (font_name fnt) (font_size fnt))
              (geom_y rect - font_size fnt * 1.3 + font_size fnt * 1.3 * 0.1) suffix,
            SetFont ''Helvetica'' (sf * 0.018),
            DrawString (geom_x rect + font_size fnt * 0.5)
              (geom_y rect - font_size fnt * 1.3 - sf * 0.018 * 1) ''DUMMY 1'',
            DrawString (geom_x rect + font_size fnt * 0.5)
              (geom_y rect - font_size fnt * 1.3 - sf * 0.018 * 2) ''DUMMY 2'',
            DrawString (geom_x rect + font_size fnt * 0.5)
              (geom_y rect - font_size fnt * 1.3 - sf * 0.018 * 3) ''DUMMY 3'']\<rparr>)"
proof -
  obtain suffix where suffix: "ordinal_lookup (str day) = Inr suffix"
    using ordinal_lookup_str by blast
  from assms have "draw_cell sw c day rect fnt sf =
       Returned (c\<lparr>fontname := ''Helvetica'', fontsize := sf * 0.018,
         code := code c @
           [RectOp (geom_x rect) (geom_y rect - geom_height rect)
              (geom_width rect) (geom_height rect),
            DrawString (geom_x rect + font_size fnt * 0.5)
              (geom_y rect - font_size fnt * 1.3) (str day),
            DrawString
              (geom_x rect + font_size fnt * 0.5 + sw (str day) (font_name fnt) (font_size fnt))
              (geom_y rect - font_size fnt * 1.3 + font_size fnt * 1.3 * 0.1) suffix,
            SetFont ''Helvetica'' (sf * 0.018),
            DrawString (geom_x rect + font_size fnt * 0.5)
              (geom_y rect - font_size fnt * 1.3 - sf * 0.018 * 1) ''DUMMY 1'',
            DrawString (geom_x rect + font_size fnt * 0.5)
              (geom_y rect - font_size fnt * 1.3 - sf * 0.018 * 2) ''DUMMY 2'',
            DrawString (geom_x rect + font_size fnt * 0.5)
              (geom_y rect - font_size fnt * 1.3 - sf * 0.018 * 3) ''DUMMY 3'']\<rparr>)"
    by (simp add: draw_cell_def suffix cell_margin_def small_font_def canvas_rect_def
        drawString_def setFont_def str_1 str_2 str_3 Let_def)
  with suffix show ?thesis
    by blast
qed

theorem draw_cell_dummy_lines_witness:
  "(22::int) \<noteq> 0 \<and>
   draw_cell mono_width Canvas0 22 (Geom 100 400 100 80) (Font ''Helvetica'' 14) 500 =
     Returned (Canvas0\<lparr>fontname := ''Helvetica'', fontsize := 9,
       code :=
         [RectOp 100 320 100 80,
          DrawString 107 381.8 ''22'',
          DrawString 123.8 383.62 ''nd'',
          SetFont ''Helvetica'' 9,
          DrawString 107 372.8 ''DUMMY 1'',
          DrawString 107 363.8 ''DUMMY 2'',
          DrawString 107 354.8 ''DUMMY 3'']\<rparr>)"
proof -
  have d: "str 22 = ''22''"
    by (simp add: str_def str_nat.simps digit_char_def)
  have "py_int ''22'' = Inr 22"
    using py_int_str [of 22] by (simp only: d)
  then have s: "ordinal_lookup ''22'' = Inr ''nd''"
    by (simp add: ordinal_lookup_def ORDINALS_def)
  show ?thesis
    using draw_cell_dummy_lines [of 22 mono_width Canvas0 "Geom 100 400 100 80"
        "Font ''Helvetica'' 14" 500]
    by (simp add: d s Canvas0_def mono_width_def)
qed

section \<open>Scaling\<close>

lemma min_double: "min (2 * a) (2 * b) = 2 * min a (b::real)"
  by (simp add: min_def)

lemma scale_factor_double:
  "scale_factor_of (Geom x2 y2 (2 * w) (2 * h)) = 2 * scale_factor_of (Geom x y w h)"
  by (simp add: scale_factor_of_def min_double)

lemma cell_rect_double:
  "cell_rect (inset_rect (Geom (2 * x) (2 * y) (2 * w) (2 * h)) (line_width_of (2 * m)))
     (cellsize_of (inset_rect (Geom (2 * x) (2 * y) (2 * w) (2 * h)) (line_width_of (2 * m))) rows)
     rows row col
   = Geom
      (2 * geom_x (cell_rect (inset_rect (Geom x y w h) (line_width_of m))
         (cellsize_of (inset_rect (Geom x y w h) (line_width_of m)) rows) rows row col))
      (2 * geom_y (cell_rect (inset_rect (Geom x y w h) (line_width_of m))
         (cellsize_of (inset_rect (Geom x y w h) (line_width_of m)) rows) rows row col))
      (2 * geom_width (cell_rect (inset_rect (Geom x y w h) (line_width_of m))
         (cellsize_of (inset_rect (Geom x y w h) (line_width_of m)) rows) rows row col))
      (2 * geom_height (cell_rect (inset_rect (Geom x y w h) (line_width_of m))
         (cellsize_of (inset_rect (Geom x y w h) (line_width_of m)) rows) rows row col))"
  by (simp add: line_width_of_def inset_rect_def cellsize_of_def cell_rect_def
      algebra_simps diff_divide_distrib)

text \<open>
  C8. Doubling the width and the height of the page rectangle (wherever its origin is)
  doubles the scale factor, and with the scale factor doubled the stroke width, the size
  of the default font, both text margins of a cell and the size of the small font are
  doubled; the font name does not change. When the origin is doubled with the extent,
  every cell rectangle is the old one with all four of its coordinates doubled, so the
  layout relative to the page is the same.
\<close>

theorem doubling_scales_all:
  "scale_factor_of (Geom x2 y2 (2 * w) (2 * h)) = 2 * scale_factor_of (Geom x y w h)
   \<and> line_width_of (2 * sf) = 2 * line_width_of sf
   \<and> font_size (page_font (2 * sf)) = 2 * font_size (page_font sf)
   \<and> font_name (page_font (2 * sf)) = font_name (page_font sf)
   \<and> size_width (cell_margin (page_font (2 * sf))) = 2 * size_width (cell_margin (page_font sf))
   \<and> size_height (cell_margin (page_font (2 * sf)))
       = 2 * size_height (cell_margin (page_font sf))
   \<and> font_size (small_font (2 * sf)) = 2 * font_size (small_font sf)
   \<and> (let r = inset_rect (Geom x y w h) (line_width_of (scale_factor_of (Geom x y w h)));
           r2 = inset_rect (Geom (2 * x) (2 * y) (2 * w) (2 * h))
                  (line_width_of (scale_factor_of (Geom (2 * x) (2 * y) (2 * w) (2 * h))));
           cell = cell_rect r (cellsize_of r rows) rows row col;
           cell2 = cell_rect r2 (cellsize_of r2 rows) rows row col
       in cell2 = Geom (2 * geom_x cell) (2 * geom_y cell)
                    (2 * geom_width cell) (2 * geom_height cell))"
proof -
  have "scale_factor_of (Geom (2 * x) (2 * y) (2 * w) (2 * h)) = 2 * scale_factor_of (Geom x y w h)"
    by (rule scale_factor_double)
  then have layout: "let r = inset_rect (Geom x y w h) (line_width_of (scale_factor_of (Geom x y w h)));
           r2 = inset_rect (Geom (2 * x) (2 * y) (2 * w) (2 * h))
                  (line_width_of (scale_factor_of (Geom (2 * x) (2 * y) (2 * w) (2 * h))));
           cell = cell_rect r (cellsize_of r rows) rows row col;
           cell2 = cell_rect r2 (cellsize_of r2 rows) rows row col
       in cell2 = Geom (2 * geom_x cell) (2 * geom_y cell)
                    (2 * geom_width cell) (2 * geom_height cell)"
    unfolding Let_def by (simp only: cell_rect_double)
  have "line_width_of (2 * sf) = 2 * line_width_of sf"
   and "font_size (page_font (2 * sf)) = 2 * font_size (page_font sf)"
   and "font_name (page_font (2 * sf)) = font_name (page_font sf)"
   and "size_width (cell_margin (page_font (2 * sf))) = 2 * size_width (cell_margin (page_font sf))"
   and "size_height (cell_margin (page_font (2 * sf)))
       = 2 * size_height (cell_margin (page_font sf))"
   and "font_size (small_font (2 * sf)) = 2 * font_size (small_font sf)"
    by (simp_all add: line_width_of_def page_font_def cell_margin_def small_font_def)
  with layout scale_factor_double [of x2 y2 w h x y] show ?thesis
    by (intro conjI)
qed

section \<open>The first weekday and the calendar module\<close>

lemma add_calendar_page_fst:
  "fst (add_calendar_page cs c rect dt cb fwd) = fst (month_grid cs dt fwd)"
  by (simp add: add_calendar_page_def split: prod.splits sum.splits)

lemma month_grid_fst:
  "0 \<le> fwd \<Longrightarrow> fwd \<le> 6 \<Longrightarrow> fst (month_grid cs dt fwd) = cs\<lparr>firstweekday := fwd\<rparr>"
  by (simp add: month_grid_def setfirstweekday_def)

lemma itermonthdays_fwd:
  "itermonthdays (cs\<lparr>firstweekday := fwd\<rparr>) y m = itermonthdays (cs0\<lparr>firstweekday := fwd\<rparr>) y m"
  by (cases "monthrange y m") (auto simp: itermonthdays_def getfirstweekday_def)

lemma month_grid_snd:
  "0 \<le> fwd \<Longrightarrow> fwd \<le> 6 \<Longrightarrow> snd (month_grid cs dt fwd) = snd (month_grid cs0 dt fwd)"
  by (simp add: month_grid_def setfirstweekday_def monthcalendar_def itermonthdays_fwd [where cs = cs and ?cs0.0 = cs0])

lemma add_calendar_page_snd:
  "snd (add_calendar_page cs c rect dt cb fwd) =
     (case snd (month_grid cs dt fwd) of Inl e \<Rightarrow> Raised e c | Inr cal \<Rightarrow> render_page cb c rect cal)"
  by (simp add: add_calendar_page_def split: prod.splits sum.splits)

text \<open>
  C9, as stated. A page rendered with Sunday as first weekday leaves the calendar module
  changed, and a later \<open>calendar.monthcalendar\<close>, which takes no first weekday, gives a
  different grid after that call than after a call with Monday.
\<close>

theorem first_weekday_persists_counterexample:
  "fst (add_calendar_page calendar_initial Canvas0 (Geom 0 0 700 500)
          \<lparr>year = 2024, month = 4\<rparr> (draw_cell mono_width) 6) \<noteq> calendar_initial
   \<and> monthcalendar (fst (add_calendar_page calendar_initial Canvas0 (Geom 0 0 700 500)
          \<lparr>year = 2024, month = 4\<rparr> (draw_cell mono_width) 6)) 2024 4
     \<noteq> monthcalendar (fst (add_calendar_page calendar_initial Canvas0 (Geom 0 0 700 500)
          \<lparr>year = 2024, month = 4\<rparr> (draw_cell mono_width) 0)) 2024 4"
proof -
  have "monthcalendar \<lparr>firstweekday = 6\<rparr> 2024 4 \<noteq> monthcalendar \<lparr>firstweekday = 0\<rparr> 2024 4"
    by code_simp
  then show ?thesis
    by (simp add: add_calendar_page_fst month_grid_fst calendar_initial_def)
qed

text \<open>
  C9, amended. \<open>add_calendar_page\<close> stores a valid first weekday in the calendar module,
  where it stays after the call; what the call itself renders depends on the first weekday
  it was given, not on what the module held before.
\<close>

theorem first_weekday_stored:
  assumes "0 \<le> fwd" and "fwd \<le> 6"
  shows "fst (add_calendar_page cs c rect dt cb fwd) = cs\<lparr>firstweekday := fwd\<rparr>
    \<and> snd (add_calendar_page cs c rect dt cb fwd) = snd (add_calendar_page cs0 c rect dt cb fwd)"
  using assms
  by (simp add: add_calendar_page_fst month_grid_fst add_calendar_page_snd
      month_grid_snd [of fwd cs dt cs0])

theorem first_weekday_stored_witness:
  "(0::int) \<le> 6 \<and> (6::int) \<le> 6
   \<and> fst (add_calendar_page calendar_initial Canvas0 (Geom 0 0 700 500)
          \<lparr>year = 2024, month = 4\<rparr> (draw_cell mono_width) 6) = \<lparr>firstweekday = 6\<rparr>
   \<and> snd (add_calendar_page calendar_initial Canvas0 (Geom 0 0 700 500)
          \<lparr>year = 2024, month = 4\<rparr> (draw_cell mono_width) 6)
     = snd (add_calendar_page \<lparr>firstweekday = 3\<rparr> Canvas0 (Geom 0 0 700 500)
          \<lparr>year = 2024, month = 4\<rparr> (draw_cell mono_width) 6)"
  using first_weekday_stored [of 6 calendar_initial Canvas0 "Geom 0 0 700 500"
      "\<lparr>year = 2024, month = 4\<rparr>" "draw_cell mono_width" "\<lparr>firstweekday = 3\<rparr>"]
  by (simp add: calendar_initial_def)

section \<open>The drawing-state guard\<close>

lemma save_state_returned:
  assumes "body (saveState c) = Returned c'" and "state_stack c' = state_stack (saveState c)"
  shows "save_state body c =
     Returned (c'\<lparr>fontname := fontname c, fontsize := fontsize c, lineWidth := lineWidth c,
                 state_stack := state_stack c, code := code c' @ [RestoreState]\<rparr>)"
  using assms by (simp add: save_state_def restoreState_def saveState_def)

lemma save_state_raised:
  assumes "body (saveState c) = Raised e c'"
  shows "save_state body c = Raised e c'"
  using assms by (simp add: save_state_def)

text \<open>
  C2, on the code. A renderer that sets the font to Courier 99 and raises, on the first
  cell of April 2024 on a fresh canvas: the exception leaves \<open>add_calendar_page\<close> with
  Courier 99 as the active font and the page's stroke width 1.25, not the Helvetica 12 and
  the width 1 that the guard saved, and the saved state is still on the stack: no
  \<open>RestoreState\<close> was emitted.
\<close>

theorem guard_error_path:
  "add_calendar_page calendar_initial Canvas0 (Geom 0 0 700 500) \<lparr>year = 2024, month = 4\<rparr>
     failing_renderer 0 =
   (\<lparr>firstweekday = 0\<rparr>,
    Raised RenderFailure
      \<lparr>fontname = ''Courier'', fontsize = 99, lineWidth = 1.25,
        state_stack = [(''Helvetica'', 12, 1)],
        code = [SaveState, SetFont ''Helvetica'' 14, SetLineWidth 1.25, SetFont ''Courier'' 99],
        pages = [], initialFontName = ''Helvetica'', initialFontSize = 12\<rparr>)"
  by (simp add: add_calendar_page_def render_page_def april_2024_monday enumerate_list_def
      upt_conv_Cons scale_factor_of_def line_width_of_def page_font_def render_cell_def
      save_state_def failing_renderer_def setFont_def setLineWidth_def saveState_def
      Canvas0_def Let_def)

section \<open>The loops of \<open>add_calendar_page\<close>\<close>

lemma for_each_append:
  "for_each (xs @ ys) body c =
     (case for_each xs body c of Raised e c' \<Rightarrow> Raised e c' | Returned c' \<Rightarrow> for_each ys body c')"
  by (induction xs arbitrary: c) (auto split: outcome.splits)

lemma for_each_map_app: "for_each (map h xs) body c = for_each xs (\<lambda>a. body (h a)) c"
  by (induction xs arbitrary: c) (auto split: outcome.splits)

lemma for_each_map: "for_each (map h xs) body = for_each xs (\<lambda>a. body (h a))"
  by (rule ext) (rule for_each_map_app)

lemma for_each_cong:
  "(\<And>a. a \<in> set xs \<Longrightarrow> f a = g a) \<Longrightarrow> for_each xs f c = for_each xs g c"
  by (induction xs arbitrary: c) (auto split: outcome.splits)

lemma for_each_product:
  "for_each (List.product xs ys) (\<lambda>(a, b). g a b) c = for_each xs (\<lambda>a. for_each ys (g a)) c"
proof (induction xs arbitrary: c)
  case Nil
  show ?case by simp
next
  case (Cons x xs)
  have "for_each (map (Pair x) ys) (\<lambda>(a, b). g a b) c = for_each ys (g x) c"
    by (simp add: for_each_map)
  then show ?case
    using Cons.IH by (simp add: for_each_append split: outcome.splits)
qed

lemma enumerate_list_nth: "enumerate_list xs = map (\<lambda>i. (i, xs ! i)) [0..<length xs]"
  unfolding enumerate_list_def by (rule nth_equalityI) simp_all

lemma nested_loops:
  assumes "\<forall>week \<in> set cal. length week = 7"
  shows "for_each (enumerate_list cal) (\<lambda>(row, week).
            for_each (enumerate_list week) (\<lambda>(col, day). body row col day)) c
         = for_each (List.product [0..<length cal] [0..<7])
             (\<lambda>(row, col). body row col (cal ! row ! col)) c"
proof -
  have "for_each (enumerate_list cal) (\<lambda>(row, week).
            for_each (enumerate_list week) (\<lambda>(col, day). body row col day)) c
        = for_each [0..<length cal] (\<lambda>row.
            for_each [0..<length (cal ! row)] (\<lambda>col. body row col (cal ! row ! col))) c"
    by (simp add: enumerate_list_nth for_each_map)
  also have "\<dots> = for_each [0..<length cal] (\<lambda>row.
            for_each [0..<7] (\<lambda>col. body row col (cal ! row ! col))) c"
    using assms by (intro for_each_cong) simp
  also have "\<dots> = for_each (List.product [0..<length cal] [0..<7])
             (\<lambda>(row, col). body row col (cal ! row ! col)) c"
    by (simp add: for_each_product)
  finally show ?thesis .
qed

lemma render_page_cells:
  assumes "cal \<noteq> []" and "\<forall>week \<in> set cal. length week = 7"
  shows "render_page cb c rect0 cal =
     (case for_each (List.product [0..<length cal] [0..<7])
             (\<lambda>(row, col).
                render_cell cb (page_font (scale_factor_of rect0))
                  (line_width_of (scale_factor_of rect0)) (scale_factor_of rect0)
                  (inset_rect rect0 (line_width_of (scale_factor_of rect0)))
                  (cellsize_of (inset_rect rect0 (line_width_of (scale_factor_of rect0)))
                     (length cal))
                  (length cal) row col (cal ! row ! col)) c of
        Raised e c' \<Rightarrow> Raised e c'
      | Returned c' \<Rightarrow> Returned (showPage c'))"
  using assms(1) by (simp add: render_page_def Let_def nested_loops [OF assms(2)])

lemma render_cell_returns:
  assumes "returns_normally cb"
  shows "is_Returned (render_cell cb fnt lw sf r cellsize rows row col day c)"
proof -
  let ?c1 = "setLineWidth (setFont (saveState c) (font_name fnt) (font_size fnt)) lw"
  let ?o = "cb ?c1 day (cell_rect r cellsize rows row col) fnt sf"
  from assms have "is_Returned ?o" and "state_stack (canvas_of ?o) = state_stack ?c1"
    by (simp_all add: returns_normally_def)
  then obtain c' where o: "?o = Returned c'" and st: "state_stack c' = state_stack ?c1"
    by (cases ?o) auto
  have "state_stack ?c1 = state_stack (saveState c)"
    by (simp add: setLineWidth_def setFont_def)
  with st have "state_stack c' = state_stack (saveState c)"
    by simp
  with o show ?thesis
    by (simp add: render_cell_def save_state_def restoreState_def saveState_def)
qed

lemma for_each_returns:
  assumes "\<And>a c. is_Returned (body a c)"
  shows "is_Returned (for_each xs body c)"
proof (induction xs arbitrary: c)
  case Nil
  show ?case by simp
next
  case (Cons a xs)
  from assms [of a c] obtain c' where "body a c = Returned c'"
    by (cases "body a c") auto
  with Cons.IH show ?case by simp
qed

lemma draw_cell_returns_normally: "returns_normally (draw_cell sw)"
proof -
  have "is_Returned (draw_cell sw c day rect fnt sf)
      \<and> state_stack (canvas_of (draw_cell sw c day rect fnt sf)) = state_stack c"
    for c day rect fnt sf
  proof (cases "day = 0")
    case True
    then show ?thesis by (simp add: draw_cell_def)
  next
    case False
    obtain suffix where "ordinal_lookup (str day) = Inr suffix"
      using ordinal_lookup_str by blast
    with False show ?thesis
      by (simp add: draw_cell_def Let_def drawString_def setFont_def canvas_rect_def)
  qed
  then show ?thesis
    by (simp add: returns_normally_def)
qed

lemma page_returns:
  assumes "1 \<le> month dt" and "month dt \<le> 12" and "0 \<le> fwd" and "fwd \<le> 6"
    and "returns_normally cb"
  shows "\<exists>cal c'. month_grid cs dt fwd = (cs\<lparr>firstweekday := fwd\<rparr>, Inr cal)
     \<and> 4 \<le> length cal \<and> length cal \<le> 6
     \<and> add_calendar_page cs c rect0 dt cb fwd
         = (cs\<lparr>firstweekday := fwd\<rparr>, Returned (showPage c'))"
proof -
  from month_grid_shape [OF assms(1-4)] obtain cal
    where grid: "month_grid cs dt fwd = (cs\<lparr>firstweekday := fwd\<rparr>, Inr cal)"
      and rows: "4 \<le> length cal" "length cal \<le> 6"
      and cols: "\<forall>week \<in> set cal. length week = 7"
    by blast
  let ?loop = "for_each (List.product [0..<length cal] [0..<7])
          (\<lambda>(row, col).
             render_cell cb (page_font (scale_factor_of rect0))
               (line_width_of (scale_factor_of rect0)) (scale_factor_of rect0)
               (inset_rect rect0 (line_width_of (scale_factor_of rect0)))
               (cellsize_of (inset_rect rect0 (line_width_of (scale_factor_of rect0)))
                  (length cal))
               (length cal) row col (cal ! row ! col)) c"
  have "is_Returned ?loop"
    by (rule for_each_returns) (simp add: render_cell_returns [OF assms(5)] split: prod.splits)
  then obtain c' where loop: "?loop = Returned c'"
    by (cases ?loop) auto
  from rows have "cal \<noteq> []"
    by auto
  then have "render_page cb c rect0 cal = Returned (showPage c')"
    using cols loop by (simp add: render_page_cells)
  then have "add_calendar_page cs c rect0 dt cb fwd
      = (cs\<lparr>firstweekday := fwd\<rparr>, Returned (showPage c'))"
    by (simp add: add_calendar_page_def grid)
  with grid rows show ?thesis
    by blast
qed

text \<open>
  C4, as stated. A page rectangle of negative width and height, April 2024, the default
  renderer: the operation does not fail, it returns with the page handed to the document.
\<close>

theorem negative_rect_counterexample:
  "is_Returned (snd (add_calendar_page calendar_initial Canvas0 (Geom 0 0 (-700) (-500))
       \<lparr>year = 2024, month = 4\<rparr> (draw_cell mono_width) 0))
   \<and> pages (canvas_of (snd (add_calendar_page calendar_initial Canvas0
        (Geom 0 0 (-700) (-500)) \<lparr>year = 2024, month = 4\<rparr> (draw_cell mono_width) 0))) \<noteq> []"
proof -
  have "\<exists>c'. add_calendar_page calendar_initial Canvas0 (Geom 0 0 (-700) (-500))
         \<lparr>year = 2024, month = 4\<rparr> (draw_cell mono_width) 0
       = (calendar_initial\<lparr>firstweekday := 0\<rparr>, Returned (showPage c'))"
    using page_returns [where dt = "\<lparr>year = 2024, month = 4\<rparr>" and fwd = 0
        and cb = "draw_cell mono_width" and cs = calendar_initial
        and ?rect0.0 = "Geom 0 0 (-700) (-500)" and c = Canvas0]
    by (simp add: draw_cell_returns_normally) blast
  then show ?thesis
    by (auto simp: showPage_def)
qed

text \<open>
  C4, amended. \<open>add_calendar_page\<close> checks neither the grid nor the page rectangle. For a
  valid month and first weekday the grid has 4 to 6 rows, never none; and for every page
  rectangle, of whatever width and height, the operation returns with the page finished
  (its stream handed to the document, the stream and the stack of saved states empty
  again) whenever the cell renderer always returns and leaves the stack of saved states
  as it found it.
\<close>

theorem no_layout_check:
  assumes "1 \<le> month dt" and "month dt \<le> 12" and "0 \<le> fwd" and "fwd \<le> 6"
    and "\<forall>cv day rect fnt sf. is_Returned (cb cv day rect fnt sf)
           \<and> state_stack (canvas_of (cb cv day rect fnt sf)) = state_stack cv"
  shows "\<exists>cal c'. month_grid cs dt fwd = (cs\<lparr>firstweekday := fwd\<rparr>, Inr cal)
     \<and> 4 \<le> length cal \<and> length cal \<le> 6
     \<and> add_calendar_page cs c rect0 dt cb fwd = (cs\<lparr>firstweekday := fwd\<rparr>, Returned c')
     \<and> pages c' \<noteq> [] \<and> code c' = [] \<and> state_stack c' = []"
proof -
  from assms(5) have "returns_normally cb"
    by (simp add: returns_normally_def)
  from page_returns [OF assms(1-4) this, of cs c rect0] obtain cal c'
    where "month_grid cs dt fwd = (cs\<lparr>firstweekday := fwd\<rparr>, Inr cal)"
      and "4 \<le> length cal" and "length cal \<le> 6"
      and "add_calendar_page cs c rect0 dt cb fwd
             = (cs\<lparr>firstweekday := fwd\<rparr>, Returned (showPage c'))"
    by blast
  moreover have "pages (showPage c') \<noteq> []" and "code (showPage c') = []"
    and "state_stack (showPage c') = []"
    by (simp_all add: showPage_def)
  ultimately show ?thesis
    by blast
qed

theorem no_layout_check_witness:
  "(1::int) \<le> month \<lparr>year = 2024, month = 4\<rparr> \<and> month \<lparr>year = 2024, month = 4\<rparr> \<le> 12
   \<and> (0::int) \<le> 0 \<and> (0::int) \<le> 6
   \<and> (\<forall>cv day rect fnt sf. is_Returned (draw_cell mono_width cv day rect fnt sf)
           \<and> state_stack (canvas_of (draw_cell mono_width cv day rect fnt sf)) = state_stack cv)
   \<and> (\<exists>cal c'. month_grid calendar_initial \<lparr>year = 2024, month = 4\<rparr> 0
           = (calendar_initial\<lparr>firstweekday := 0\<rparr>, Inr cal)
     \<and> 4 \<le> length cal \<and> length cal \<le> 6
     \<and> add_calendar_page calendar_initial Canvas0 (Geom 0 0 0 (-500))
           \<lparr>year = 2024, month = 4\<rparr> (draw_cell mono_width) 0
         = (calendar_initial\<lparr>firstweekday := 0\<rparr>, Returned c')
     \<and> pages c' \<noteq> [] \<and> code c' = [] \<and> state_stack c' = [])"
proof -
  have wb: "\<forall>cv day rect fnt sf. is_Returned (draw_cell mono_width cv day rect fnt sf)
           \<and> state_stack (canvas_of (draw_cell mono_width cv day rect fnt sf)) = state_stack cv"
    using draw_cell_returns_normally [of mono_width] by (simp add: returns_normally_def)
  show ?thesis
    using wb no_layout_check [where dt = "\<lparr>year = 2024, month = 4\<rparr>" and fwd = 0
        and cb = "draw_cell mono_width" and cs = calendar_initial
        and ?rect0.0 = "Geom 0 0 0 (-500)" and c = Canvas0]
    by simp
qed

section \<open>The cells tile the inset rectangle\<close>

lemma strip_cover:
  fixes s t :: real
  assumes "0 \<le> t" and "t \<le> real (Suc n) * s"
  shows "\<exists>k\<le>n. real k * s \<le> t \<and> t \<le> real k * s + s"
  using assms
proof (induction n)
  case 0
  then show ?case by simp
next
  case (Suc n)
  show ?case
  proof (cases "t \<le> real (Suc n) * s")
    case True
    with Suc obtain k where "k \<le> n" and "real k * s \<le> t \<and> t \<le> real k * s + s"
      by blast
    then show ?thesis
      by (intro exI [of _ k]) simp
  next
    case False
    with Suc.prems show ?thesis
      by (intro exI [of _ "Suc n"]) (simp add: algebra_simps)
  qed
qed

lemma strip_inside:
  fixes s t :: real
  assumes "k < n" and "real k * s \<le> t" and "t \<le> real k * s + s"
  shows "0 \<le> t \<and> t \<le> real n * s"
proof -
  have s: "0 \<le> s"
    using assms(2,3) by linarith
  then have "0 \<le> real k * s"
    by simp
  moreover have "real k * s + s = real (Suc k) * s"
    by (simp add: algebra_simps)
  moreover have "real (Suc k) * s \<le> real n * s"
    using s assms(1) by (intro mult_right_mono) (simp_all add: Suc_leI)
  ultimately show ?thesis
    using assms(2,3) by linarith
qed

lemma strip_disjoint_less:
  fixes s t :: real
  assumes "0 < s" and "t < real k * s + s" and "real k' * s < t"
  shows "k' \<le> k"
proof (rule ccontr)
  assume "\<not> k' \<le> k"
  then have "Suc k \<le> k'" by simp
  then have "real (Suc k) * s \<le> real k' * s"
    using assms(1) by (intro mult_right_mono) simp_all
  moreover have "real (Suc k) * s = real k * s + s"
    by (simp add: algebra_simps)
  ultimately show False
    using assms(2,3) by linarith
qed

lemma strip_disjoint:
  fixes s t :: real
  assumes "real k * s < t" and "t < real k * s + s"
    and "real k' * s < t" and "t < real k' * s + s"
  shows "k = k'"
proof -
  have s: "0 < s"
    using assms(1,2) by linarith
  show ?thesis
    using strip_disjoint_less [OF s assms(2) assms(3)]
      strip_disjoint_less [OF s assms(4) assms(1)]
    by simp
qed

lemma below_row:
  assumes "row < rows"
  shows "\<exists>k<rows. real k = real rows - real row - 1"
proof -
  have "rows - Suc row < rows" and "real (rows - Suc row) = real rows - real row - 1"
    using assms by (simp_all add: of_nat_diff)
  then show ?thesis
    by blast
qed

lemma grid_cover:
  fixes x0 y0 cw ch :: real
  assumes "0 < rows"
  shows "in_rect x0 y0 (7 * cw) (real rows * ch) p \<longleftrightarrow>
     (\<exists>row<rows. \<exists>col<7.
        in_cell (Geom (x0 + cw * real col) (y0 + (real rows - real row) * ch) cw ch) p)"
proof
  assume inr: "in_rect x0 y0 (7 * cw) (real rows * ch) p"
  obtain m where m: "rows = Suc m"
    using assms by (cases rows) auto
  have "0 \<le> fst p - x0" and "fst p - x0 \<le> real (Suc 6) * cw"
    using inr by (simp_all add: in_rect_def)
  then obtain k where k: "k \<le> 6" "real k * cw \<le> fst p - x0" "fst p - x0 \<le> real k * cw + cw"
    using strip_cover by blast
  have "0 \<le> snd p - y0" and "snd p - y0 \<le> real (Suc m) * ch"
    using inr by (simp_all add: in_rect_def m)
  then obtain j where j: "j \<le> m" "real j * ch \<le> snd p - y0" "snd p - y0 \<le> real j * ch + ch"
    using strip_cover by blast
  have row: "m - j < rows" and "real rows - real (m - j) = real j + 1"
    using j(1) by (simp_all add: m)
  then have "in_cell (Geom (x0 + cw * real k) (y0 + (real rows - real (m - j)) * ch) cw ch) p"
    using k j by (simp add: in_cell_def in_rect_def algebra_simps)
  moreover have "k < 7"
    using k(1) by simp
  ultimately show "\<exists>row<rows. \<exists>col<7.
        in_cell (Geom (x0 + cw * real col) (y0 + (real rows - real row) * ch) cw ch) p"
    using row by blast
next
  assume "\<exists>row<rows. \<exists>col<7.
        in_cell (Geom (x0 + cw * real col) (y0 + (real rows - real row) * ch) cw ch) p"
  then obtain row col where row: "row < rows" and col: "col < (7::nat)"
    and cell: "in_cell (Geom (x0 + cw * real col) (y0 + (real rows - real row) * ch) cw ch) p"
    by blast
  have "real col * cw \<le> fst p - x0" and "fst p - x0 \<le> real col * cw + cw"
    using cell by (simp_all add: in_cell_def in_rect_def algebra_simps)
  with col have x: "0 \<le> fst p - x0 \<and> fst p - x0 \<le> real (7::nat) * cw"
    by (intro strip_inside)
  obtain k where k: "k < rows" and kr: "real k = real rows - real row - 1"
    using row below_row by blast
  have "real k * ch \<le> snd p - y0" and "snd p - y0 \<le> real k * ch + ch"
    using cell by (simp_all add: kr in_cell_def in_rect_def algebra_simps)
  with k have "0 \<le> snd p - y0 \<and> snd p - y0 \<le> real rows * ch"
    by (intro strip_inside)
  with x show "in_rect x0 y0 (7 * cw) (real rows * ch) p"
    by (simp add: in_rect_def)
qed

lemma grid_disjoint:
  fixes x0 y0 cw ch :: real
  assumes "row < rows" and "row' < rows"
    and "inside_cell (Geom (x0 + cw * real col) (y0 + (real rows - real row) * ch) cw ch) p"
    and "inside_cell (Geom (x0 + cw * real col') (y0 + (real rows - real row') * ch) cw ch) p"
  shows "row = row' \<and> col = col'"
proof -
  have "real col * cw < fst p - x0" and "fst p - x0 < real col * cw + cw"
    and "real col' * cw < fst p - x0" and "fst p - x0 < real col' * cw + cw"
    using assms(3,4) by (simp_all add: inside_cell_def inside_rect_def algebra_simps)
  then have col: "col = col'"
    by (rule strip_disjoint)
  obtain k where kr: "real k = real rows - real row - 1"
    using assms(1) below_row by blast
  obtain k' where kr': "real k' = real rows - real row' - 1"
    using assms(2) below_row by blast
  have "real k * ch < snd p - y0" and "snd p - y0 < real k * ch + ch"
    and "real k' * ch < snd p - y0" and "snd p - y0 < real k' * ch + ch"
    using assms(3,4) by (simp_all add: kr kr' inside_cell_def inside_rect_def algebra_simps)
  then have "k = k'"
    by (rule strip_disjoint)
  with kr kr' have "real row = real row'"
    by simp
  then have "row = row'"
    by simp
  with col show ?thesis
    by simp
qed

lemma foldl_raised:
  "foldl (\<lambda>out a. case out of Returned c' \<Rightarrow> body a c' | Raised e c' \<Rightarrow> Raised e c')
     (Raised e c) xs = Raised e c"
  by (induction xs) simp_all

lemma for_each_foldl:
  "for_each xs body c =
     foldl (\<lambda>out a. case out of Returned c' \<Rightarrow> body a c' | Raised e c' \<Rightarrow> Raised e c')
       (Returned c) xs"
proof (induction xs arbitrary: c)
  case Nil
  show ?case by simp
next
  case (Cons a xs)
  show ?case
  proof (cases "body a c")
    case (Returned c')
    then show ?thesis
      using Cons.IH by simp
  next
    case (Raised e c')
    then show ?thesis
      by (simp add: foldl_raised)
  qed
qed

lemma render_cell_steps:
  "render_cell cb fnt lw sf r cellsize rows row col day c =
     (case cb (c\<lparr>state_stack := (fontname c, fontsize c, lineWidth c) # state_stack c,
                  fontname := font_name fnt, fontsize := font_size fnt, lineWidth := lw,
                  code := code c @ [SaveState, SetFont (font_name fnt) (font_size fnt),
                                    SetLineWidth lw]\<rparr>)
             day (cell_rect r cellsize rows row col) fnt sf of
        Returned c' \<Rightarrow>
          (case state_stack c' of
             [] \<Rightarrow> Raised IndexError (c'\<lparr>code := code c' @ [RestoreState]\<rparr>)
           | (fn, fs, w) # st \<Rightarrow>
               Returned (c'\<lparr>fontname := fn, fontsize := fs, lineWidth := w, state_stack := st,
                           code := code c' @ [RestoreState]\<rparr>))
      | Raised e c' \<Rightarrow> Raised e c')"
  by (simp add: render_cell_def save_state_def saveState_def setFont_def setLineWidth_def
      restoreState_def split: outcome.splits)

lemma for_each_appends:
  assumes "\<And>a c. body a c = Returned (c\<lparr>code := code c @ f a\<rparr>)"
  shows "for_each xs body c = Returned (c\<lparr>code := code c @ concat (map f xs)\<rparr>)"
proof (induction xs arbitrary: c)
  case Nil
  show ?case by simp
next
  case (Cons a xs)
  show ?case
    by (simp add: assms [of a c] Cons.IH)
qed

lemma render_cell_stroke:
  "render_cell stroke_renderer fnt lw sf r cellsize rows row col day c =
     Returned (c\<lparr>code := code c @
       [SaveState, SetFont (font_name fnt) (font_size fnt), SetLineWidth lw,
        RectOp (geom_x (cell_rect r cellsize rows row col))
          (geom_y (cell_rect r cellsize rows row col))
          (geom_width (cell_rect r cellsize rows row col))
          (geom_height (cell_rect r cellsize rows row col)),
        DrawString (geom_x (cell_rect r cellsize rows row col))
          (geom_y (cell_rect r cellsize rows row col)) (str day),
        RestoreState]\<rparr>)"
  by (simp add: render_cell_steps stroke_renderer_def drawString_def canvas_rect_def)

lemma grid_cover_xy:
  fixes x0 y0 cw ch :: real
  assumes "0 < rows"
  shows "(x0 \<le> px \<and> px \<le> x0 + 7 * cw \<and> y0 \<le> py \<and> py \<le> y0 + real rows * ch) \<longleftrightarrow>
     (\<exists>row<rows. \<exists>col<7.
        x0 + cw * real col \<le> px \<and> px \<le> x0 + cw * real col + cw
        \<and> y0 + (real rows - real row) * ch - ch \<le> py
        \<and> py \<le> y0 + (real rows - real row) * ch)"
  using grid_cover [OF assms, of x0 y0 cw ch "(px, py)"]
  by (simp add: in_rect_def in_cell_def)

lemma grid_disjoint_xy:
  fixes x0 y0 cw ch :: real
  assumes "row < rows" and "row' < rows"
    and "x0 + cw * real col < px \<and> px < x0 + cw * real col + cw
        \<and> y0 + (real rows - real row) * ch - ch < py
        \<and> py < y0 + (real rows - real row) * ch"
    and "x0 + cw * real col' < px \<and> px < x0 + cw * real col' + cw
        \<and> y0 + (real rows - real row') * ch - ch < py
        \<and> py < y0 + (real rows - real row') * ch"
  shows "row = row' \<and> col = col'"
  using assms(3,4)
  by (intro grid_disjoint [OF assms(1,2), of x0 cw col y0 ch "(px, py)" col'])
    (simp_all add: inside_cell_def inside_rect_def)

lemma page_run:
  assumes "month_grid cs dt fwd = (cs', Inr cal)" and "cal \<noteq> []"
    and "\<forall>week \<in> set cal. length week = 7"
  shows "snd (add_calendar_page cs c rect0 dt cb fwd) =
     (case foldl (\<lambda>out rc. case out of
                     Returned cv \<Rightarrow>
                       render_cell cb (page_font (scale_factor_of rect0))
                         (line_width_of (scale_factor_of rect0)) (scale_factor_of rect0)
                         (inset_rect rect0 (line_width_of (scale_factor_of rect0)))
                         (cellsize_of (inset_rect rect0 (line_width_of (scale_factor_of rect0)))
                            (length cal))
                         (length cal) (fst rc) (snd rc) (cal ! fst rc ! snd rc) cv
                   | Raised e cv \<Rightarrow> Raised e cv)
             (Returned c) (List.product [0..<length cal] [0..<7]) of
        Returned c' \<Rightarrow> Returned (showPage c')
      | Raised e c' \<Rightarrow> Raised e c')"
  by (simp add: add_calendar_page_snd assms(1) render_page_cells [OF assms(2,3)]
      for_each_foldl case_prod_beta cong: outcome.case_cong)

lemma page_stroke:
  assumes "month_grid cs dt fwd = (cs', Inr cal)" and "cal \<noteq> []"
    and "\<forall>week \<in> set cal. length week = 7"
  shows "snd (add_calendar_page cs c rect0 dt stroke_renderer fwd) =
     Returned (showPage (c\<lparr>code := code c @ concat (map (\<lambda>(row, col).
       [SaveState,
        SetFont (font_name (page_font (scale_factor_of rect0)))
          (font_size (page_font (scale_factor_of rect0))),
        SetLineWidth (line_width_of (scale_factor_of rect0)),
        RectOp
          (geom_x (cell_rect (inset_rect rect0 (line_width_of (scale_factor_of rect0)))
             (cellsize_of (inset_rect rect0 (line_width_of (scale_factor_of rect0)))
                (length cal))
             (length cal) row col))
          (geom_y (cell_rect (inset_rect rect0 (line_width_of (scale_factor_of rect0)))
             (cellsize_of (inset_rect rect0 (line_width_of (scale_factor_of rect0)))
                (length cal))
             (length cal) row col))
          (geom_width (cell_rect (inset_rect rect0 (line_width_of (scale_factor_of rect0)))
             (cellsize_of (inset_rect rect0 (line_width_of (scale_factor_of rect0)))
                (length cal))
             (length cal) row col))
          (geom_height (cell_rect (inset_rect rect0 (line_width_of (scale_factor_of rect0)))
             (cellsize_of (inset_rect rect0 (line_width_of (scale_factor_of rect0)))
                (length cal))
             (length cal) row col)),
        DrawString
          (geom_x (cell_rect (inset_rect rect0 (line_width_of (scale_factor_of rect0)))
             (cellsize_of (inset_rect rect0 (line_width_of (scale_factor_of rect0)))
                (length cal))
             (length cal) row col))
          (geom_y (cell_rect (inset_rect rect0 (line_width_of (scale_factor_of rect0)))
             (cellsize_of (inset_rect rect0 (line_width_of (scale_factor_of rect0)))
                (length cal))
             (length cal) row col))
          (str (cal ! row ! col)),
        RestoreState]) (List.product [0..<length cal] [0..<7]))\<rparr>))"
proof -
  let ?f = "\<lambda>(row, col).
       [SaveState,
        SetFont (font_name (page_font (scale_factor_of rect0)))
          (font_size (page_font (scale_factor_of rect0))),
        SetLineWidth (line_width_of (scale_factor_of rect0)),
        RectOp
          (geom_x (cell_rect (inset_rect rect0 (line_width_of (scale_factor_of rect0)))
             (cellsize_of (inset_rect rect0 (line_width_of (scale_factor_of rect0)))
                (length cal))
             (length cal) row col))
          (geom_y (cell_rect (inset_rect rect0 (line_width_of (scale_factor_of rect0)))
             (cellsize_of (inset_rect rect0 (line_width_of (scale_factor_of rect0)))
                (length cal))
             (length cal) row col))
          (geom_width (cell_rect (inset_rect rect0 (line_width_of (scale_factor_of rect0)))
             (cellsize_of (inset_rect rect0 (line_width_of (scale_factor_of rect0)))
                (length cal))
             (length cal) row col))
          (geom_height (cell_rect (inset_rect rect0 (line_width_of (scale_factor_of rect0)))
             (cellsize_of (inset_rect rect0 (line_width_of (scale_factor_of rect0)))
                (length cal))
             (length cal) row col)),
        DrawString
          (geom_x (cell_rect (inset_rect rect0 (line_width_of (scale_factor_of rect0)))
             (cellsize_of (inset_rect rect0 (line_width_of (scale_factor_of rect0)))
                (length cal))
             (length cal) row col))
          (geom_y (cell_rect (inset_rect rect0 (line_width_of (scale_factor_of rect0)))
             (cellsize_of (inset_rect rect0 (line_width_of (scale_factor_of rect0)))
                (length cal))
             (length cal) row col))
          (str (cal ! row ! col)),
        RestoreState]"
  have "for_each (List.product [0..<length cal] [0..<7])
          (\<lambda>(row, col).
             render_cell stroke_renderer (page_font (scale_factor_of rect0))
               (line_width_of (scale_factor_of rect0)) (scale_factor_of rect0)
               (inset_rect rect0 (line_width_of (scale_factor_of rect0)))
               (cellsize_of (inset_rect rect0 (line_width_of (scale_factor_of rect0)))
                  (length cal))
               (length cal) row col (cal ! row ! col)) c
        = Returned (c\<lparr>code := code c @ concat (map ?f (List.product [0..<length cal] [0..<7]))\<rparr>)"
    by (rule for_each_appends) (simp add: render_cell_stroke split: prod.splits)
  then show ?thesis
    by (simp add: add_calendar_page_snd assms(1) render_page_cells [OF assms(2,3)])
qed

text \<open>
  C3. For a valid month and first weekday and every page rectangle, let \<open>(x0, y0, w, h)\<close>
  be the page rectangle inset by the stroke width \<open>lw = min(width, height) * 0.0025\<close> on
  all sides, \<open>rows\<close> the number of rows of the grid, \<open>cw = w / 7\<close> and \<open>ch = h / rows\<close>.
  \<^item> With any cell renderer, the operation is the run over every \<open>(row, col)\<close> of the grid
    once, in row-major order, of: save the state, set the page font and the stroke width,
    call the renderer with the day of the cell and the rectangle of origin
    \<open>(x0 + col * cw, y0 + (rows - row) * ch)\<close>, width \<open>cw\<close> and height \<open>ch\<close>, restore the
    state; the run stops at the first exception, and otherwise the page is finished.
  \<^item> With the renderer that strokes the rectangle it is given and writes the day at its
    origin, the finished page holds, for every cell once and in row-major order, exactly
    that rectangle and that day between the guard's operators.
  \<^item> Seven cell widths make \<open>w\<close> and \<open>rows\<close> cell heights make \<open>h\<close>.
  \<^item> The cells, each hanging below its origin as the default renderer strokes it, cover
    the inset rectangle exactly, and the interiors of two different cells do not meet.
\<close>

theorem cells_tile_inset:
  assumes "1 \<le> month dt" and "month dt \<le> 12" and "0 \<le> fwd" and "fwd \<le> 6"
  shows "\<exists>cal. month_grid cs dt fwd = (cs\<lparr>firstweekday := fwd\<rparr>, Inr cal) \<and>
     (let rows = length cal;
          sf = min (geom_width rect0) (geom_height rect0);
          lw = sf * 0.0025;
          x0 = geom_x rect0 + lw;
          y0 = geom_y rect0 + lw;
          w = geom_width rect0 - lw * 2;
          h = geom_height rect0 - lw * 2;
          cw = w / 7;
          ch = h / real rows;
          cells = List.product [0..<rows] [0..<7];
          guarded = (\<lambda>cv row col.
            case cb (cv\<lparr>state_stack := (fontname cv, fontsize cv, lineWidth cv) # state_stack cv,
                        fontname := ''Helvetica'', fontsize := sf * 0.028, lineWidth := lw,
                        code := code cv @ [SaveState, SetFont ''Helvetica'' (sf * 0.028),
                                           SetLineWidth lw]\<rparr>)
                   (cal ! row ! col)
                   (Geom (x0 + cw * real col) (y0 + (real rows - real row) * ch) cw ch)
                   (Font ''Helvetica'' (sf * 0.028)) sf of
              Returned c' \<Rightarrow>
                (case state_stack c' of
                   [] \<Rightarrow> Raised IndexError (c'\<lparr>code := code c' @ [RestoreState]\<rparr>)
                 | (fn, fs, wd) # st \<Rightarrow>
                     Returned (c'\<lparr>fontname := fn, fontsize := fs, lineWidth := wd,
                                 state_stack := st, code := code c' @ [RestoreState]\<rparr>))
            | Raised e c' \<Rightarrow> Raised e c')
      in snd (add_calendar_page cs c rect0 dt cb fwd) =
           (case foldl (\<lambda>out (row, col). case out of
                           Returned cv \<Rightarrow> guarded cv row col
                         | Raised e cv \<Rightarrow> Raised e cv)
                   (Returned c) cells of
              Returned c' \<Rightarrow>
                Returned (c'\<lparr>fontname := initialFontName c', fontsize := initialFontSize c',
                            lineWidth := 1, state_stack := [], code := [],
                            pages := pages c' @ [code c']\<rparr>)
            | Raised e c' \<Rightarrow> Raised e c')
         \<and> snd (add_calendar_page cs c rect0 dt stroke_renderer fwd) =
             Returned (c\<lparr>fontname := initialFontName c,
               fontsize := initialFontSize c, lineWidth := 1, state_stack := [], code := [],
               pages := pages c @ [code c @ concat (map (\<lambda>(row, col).
                 [SaveState, SetFont ''Helvetica'' (sf * 0.028), SetLineWidth lw,
                  RectOp (x0 + cw * real col) (y0 + (real rows - real row) * ch) cw ch,
                  DrawString (x0 + cw * real col) (y0 + (real rows - real row) * ch)
                    (str (cal ! row ! col)),
                  RestoreState]) cells)]\<rparr>)
         \<and> 7 * cw = w \<and> real rows * ch = h
         \<and> (\<forall>px py. (x0 \<le> px \<and> px \<le> x0 + w \<and> y0 \<le> py \<and> py \<le> y0 + h) \<longleftrightarrow>
                (\<exists>row<rows. \<exists>col<7.
                   x0 + cw * real col \<le> px \<and> px \<le> x0 + cw * real col + cw
                   \<and> y0 + (real rows - real row) * ch - ch \<le> py
                   \<and> py \<le> y0 + (real rows - real row) * ch))
         \<and> (\<forall>row<rows. \<forall>col<7. \<forall>row'<rows. \<forall>col'<7. \<forall>px py.
                (x0 + cw * real col < px \<and> px < x0 + cw * real col + cw
                   \<and> y0 + (real rows - real row) * ch - ch < py
                   \<and> py < y0 + (real rows - real row) * ch)
                \<and> (x0 + cw * real col' < px \<and> px < x0 + cw * real col' + cw
                   \<and> y0 + (real rows - real row') * ch - ch < py
                   \<and> py < y0 + (real rows - real row') * ch)
                  \<longrightarrow> row = row' \<and> col = col'))"
proof -
  from month_grid_shape [OF assms] obtain cal
    where grid: "month_grid cs dt fwd = (cs\<lparr>firstweekday := fwd\<rparr>, Inr cal)"
      and rows: "4 \<le> length cal"
      and cols: "\<forall>week \<in> set cal. length week = 7"
    by blast
  define rows where "rows = length cal"
  define sf where "sf = min (geom_width rect0) (geom_height rect0)"
  define lw where "lw = sf * 0.0025"
  define x0 where "x0 = geom_x rect0 + lw"
  define y0 where "y0 = geom_y rect0 + lw"
  define w where "w = geom_width rect0 - lw * 2"
  define h where "h = geom_height rect0 - lw * 2"
  define cw where "cw = w / 7"
  define ch where "ch = h / real rows"
  note defs = rows_def sf_def lw_def x0_def y0_def w_def h_def cw_def ch_def
  have rows_pos: "0 < rows" and nonempty: "cal \<noteq> []"
    using rows by (auto simp: rows_def)
  have wsum: "7 * cw = w"
    by (simp add: cw_def)
  have hsum: "real rows * ch = h"
    using rows_pos by (simp add: ch_def)
  have run: "snd (add_calendar_page cs c rect0 dt cb fwd) =
           (case foldl (\<lambda>out (row, col). case out of
                           Returned cv \<Rightarrow>
            (case cb (cv\<lparr>state_stack := (fontname cv, fontsize cv, lineWidth cv) # state_stack cv,
                        fontname := ''Helvetica'', fontsize := sf * 0.028, lineWidth := lw,
                        code := code cv @ [SaveState, SetFont ''Helvetica'' (sf * 0.028),
                                           SetLineWidth lw]\<rparr>)
                   (cal ! row ! col)
                   (Geom (x0 + cw * real col) (y0 + (real rows - real row) * ch) cw ch)
                   (Font ''Helvetica'' (sf * 0.028)) sf of
              Returned c' \<Rightarrow>
                (case state_stack c' of
                   [] \<Rightarrow> Raised IndexError (c'\<lparr>code := code c' @ [RestoreState]\<rparr>)
                 | (fn, fs, wd) # st \<Rightarrow>
                     Returned (c'\<lparr>fontname := fn, fontsize := fs, lineWidth := wd,
                                 state_stack := st, code := code c' @ [RestoreState]\<rparr>))
            | Raised e c' \<Rightarrow> Raised e c')
                         | Raised e cv \<Rightarrow> Raised e cv)
                   (Returned c) (List.product [0..<rows] [0..<7]) of
              Returned c' \<Rightarrow>
                Returned (c'\<lparr>fontname := initialFontName c', fontsize := initialFontSize c',
                            lineWidth := 1, state_stack := [], code := [],
                            pages := pages c' @ [code c']\<rparr>)
            | Raised e c' \<Rightarrow> Raised e c')"
    unfolding defs
    by (simp add: page_run [OF grid nonempty cols] render_cell_steps showPage_def
        page_font_def scale_factor_of_def line_width_of_def inset_rect_def cellsize_of_def
        cell_rect_def case_prod_unfold cong: outcome.case_cong)
  have log: "snd (add_calendar_page cs c rect0 dt stroke_renderer fwd) =
             Returned (c\<lparr>fontname := initialFontName c,
               fontsize := initialFontSize c, lineWidth := 1, state_stack := [], code := [],
               pages := pages c @ [code c @ concat (map (\<lambda>(row, col).
                 [SaveState, SetFont ''Helvetica'' (sf * 0.028), SetLineWidth lw,
                  RectOp (x0 + cw * real col) (y0 + (real rows - real row) * ch) cw ch,
                  DrawString (x0 + cw * real col) (y0 + (real rows - real row) * ch)
                    (str (cal ! row ! col)),
                  RestoreState]) (List.product [0..<rows] [0..<7]))]\<rparr>)"
    unfolding defs
    by (simp add: page_stroke [OF grid nonempty cols] showPage_def case_prod_unfold
        page_font_def scale_factor_of_def line_width_of_def inset_rect_def cellsize_of_def
        cell_rect_def)
  have cover: "(x0 \<le> px \<and> px \<le> x0 + w \<and> y0 \<le> py \<and> py \<le> y0 + h) \<longleftrightarrow>
                (\<exists>row<rows. \<exists>col<7.
                   x0 + cw * real col \<le> px \<and> px \<le> x0 + cw * real col + cw
                   \<and> y0 + (real rows - real row) * ch - ch \<le> py
                   \<and> py \<le> y0 + (real rows - real row) * ch)" for px py
    using grid_cover_xy [OF rows_pos, of x0 px cw y0 py ch]
    by (simp only: wsum hsum)
  have apart: "row = row' \<and> col = col'"
    if "row < rows" and "row' < rows"
      and "x0 + cw * real col < px \<and> px < x0 + cw * real col + cw
                   \<and> y0 + (real rows - real row) * ch - ch < py
                   \<and> py < y0 + (real rows - real row) * ch"
      and "x0 + cw * real col' < px \<and> px < x0 + cw * real col' + cw
                   \<and> y0 + (real rows - real row') * ch - ch < py
                   \<and> py < y0 + (real rows - real row') * ch"
    for row col row' col' px py
    using that by (rule grid_disjoint_xy)
  show ?thesis
    unfolding Let_def
    apply (rule exI [of _ cal])
    apply (intro conjI)
    subgoal by (rule grid)
    subgoal using run unfolding defs .
    subgoal using log unfolding defs .
    subgoal using wsum unfolding defs .
    subgoal using hsum unfolding defs .
    subgoal using cover unfolding defs by blast
    subgoal using apart unfolding defs by blast
    done
qed

theorem cells_tile_inset_witness:
  "(1::int) \<le> month \<lparr>year = 2024, month = 4\<rparr> \<and> month \<lparr>year = 2024, month = 4\<rparr> \<le> 12
   \<and> (0::int) \<le> 0 \<and> (0::int) \<le> 6
   \<and> (\<exists>cal. month_grid calendar_initial \<lparr>year = 2024, month = 4\<rparr> 0
           = (calendar_initial\<lparr>firstweekday := 0\<rparr>, Inr cal) \<and>
     (let rows = length cal;
          sf = min (geom_width (Geom 0 0 700 500)) (geom_height (Geom 0 0 700 500));
          lw = sf * 0.0025;
          x0 = geom_x (Geom 0 0 700 500) + lw;
          y0 = geom_y (Geom 0 0 700 500) + lw;
          w = geom_width (Geom 0 0 700 500) - lw * 2;
          h = geom_height (Geom 0 0 700 500) - lw * 2;
          cw = w / 7;
          ch = h / real rows;
          cells = List.product [0..<rows] [0..<7];
          guarded = (\<lambda>cv row col.
            case (draw_cell mono_width) (cv\<lparr>state_stack := (fontname cv, fontsize cv, lineWidth cv) # state_stack cv,
                        fontname := ''Helvetica'', fontsize := sf * 0.028, lineWidth := lw,
                        code := code cv @ [SaveState, SetFont ''Helvetica'' (sf * 0.028),
                                           SetLineWidth lw]\<rparr>)
                   (cal ! row ! col)
                   (Geom (x0 + cw * real col) (y0 + (real rows - real row) * ch) cw ch)
                   (Font ''Helvetica'' (sf * 0.028)) sf of
              Returned c' \<Rightarrow>
                (case state_stack c' of
                   [] \<Rightarrow> Raised IndexError (c'\<lparr>code := code c' @ [RestoreState]\<rparr>)
                 | (fn, fs, wd) # st \<Rightarrow>
                     Returned (c'\<lparr>fontname := fn, fontsize := fs, lineWidth := wd,
                                 state_stack := st, code := code c' @ [RestoreState]\<rparr>))
            | Raised e c' \<Rightarrow> Raised e c')
      in snd (add_calendar_page calendar_initial Canvas0 (Geom 0 0 700 500) \<lparr>year = 2024, month = 4\<rparr> (draw_cell mono_width) 0) =
           (case foldl (\<lambda>out (row, col). case out of
                           Returned cv \<Rightarrow> guarded cv row col
                         | Raised e cv \<Rightarrow> Raised e cv)
                   (Returned Canvas0) cells of
              Returned c' \<Rightarrow>
                Returned (c'\<lparr>fontname := initialFontName c', fontsize := initialFontSize c',
                            lineWidth := 1, state_stack := [], code := [],
                            pages := pages c' @ [code c']\<rparr>)
            | Raised e c' \<Rightarrow> Raised e c')
         \<and> snd (add_calendar_page calendar_initial Canvas0 (Geom 0 0 700 500) \<lparr>year = 2024, month = 4\<rparr> stroke_renderer 0) =
             Returned (Canvas0\<lparr>fontname := initialFontName Canvas0,
               fontsize := initialFontSize Canvas0, lineWidth := 1, state_stack := [], code := [],
               pages := pages Canvas0 @ [code Canvas0 @ concat (map (\<lambda>(row, col).
                 [SaveState, SetFont ''Helvetica'' (sf * 0.028), SetLineWidth lw,
                  RectOp (x0 + cw * real col) (y0 + (real rows - real row) * ch) cw ch,
                  DrawString (x0 + cw * real col) (y0 + (real rows - real row) * ch)
                    (str (cal ! row ! col)),
                  RestoreState]) cells)]\<rparr>)
         \<and> 7 * cw = w \<and> real rows * ch = h
         \<and> (\<forall>px py. (x0 \<le> px \<and> px \<le> x0 + w \<and> y0 \<le> py \<and> py \<le> y0 + h) \<longleftrightarrow>
                (\<exists>row<rows. \<exists>col<7.
                   x0 + cw * real col \<le> px \<and> px \<le> x0 + cw * real col + cw
                   \<and> y0 + (real rows - real row) * ch - ch \<le> py
                   \<and> py \<le> y0 + (real rows - real row) * ch))
         \<and> (\<forall>row<rows. \<forall>col<7. \<forall>row'<rows. \<forall>col'<7. \<forall>px py.
                (x0 + cw * real col < px \<and> px < x0 + cw * real col + cw
                   \<and> y0 + (real rows - real row) * ch - ch < py
                   \<and> py < y0 + (real rows - real row) * ch)
                \<and> (x0 + cw * real col' < px \<and> px < x0 + cw * real col' + cw
                   \<and> y0 + (real rows - real row') * ch - ch < py
                   \<and> py < y0 + (real rows - real row') * ch)
                  \<longrightarrow> row = row' \<and> col = col')))"
  by (intro conjI cells_tile_inset) simp_all

end
